theory Spec2Isabelle
  imports Complex_Main "HOL-Library.FSet"
begin

section \<open>Python values used by the matching script\<close>

text \<open>
  The exceptions the script can raise, as values. A function of the script that can raise
  returns \<open>error + 'a\<close>, with \<open>Inl\<close> for the exception.
\<close>

datatype error =
    IndexError
  | KeyError
  | ValueError
  | ZeroDivisionError
  | StatisticsError
  | AttributeError
  | TypeError
  | RecursionError
  | OverflowError

text \<open>
  \<open>s.split(sep)\<close> for a separator of one character: the string is cut at every
  occurrence of the separator, so the result has one item more than there are separators,
  and the empty string gives the list holding the empty string.
\<close>

fun split :: "char \<Rightarrow> string \<Rightarrow> string list" where
  "split sep [] = [[]]"
| "split sep (c # cs) =
     (if c = sep then [] # split sep cs
      else (case split sep cs of [] \<Rightarrow> [[c]] | w # ws \<Rightarrow> (c # w) # ws))"

text \<open>\<open>row[i]\<close> for a constant column index \<open>i \<ge> 0\<close>: IndexError past the end of the row.\<close>

definition getitem :: "string list \<Rightarrow> nat \<Rightarrow> error + string" where
  "getitem row i = (if i < length row then Inr (row ! i) else Inl IndexError)"

section \<open>Python floats\<close>

text \<open>
  A Python float is an IEEE 754 double, and an arithmetic operation on floats returns the
  exact result rounded to the nearest double, a tie going to the even significand. A
  nonzero double with binary exponent \<open>e\<close> is an integer of 53 bits times
  \<open>2 powi (e - 52)\<close>: \<open>round_half_even\<close> rounds the scaled value to an integer and
  \<open>double\<close> rounds a real number to a double. The range of the exponent is left open: a
  quotient of two set sizes and the weights built from it stay far inside the range of
  doubles.
\<close>

definition round_half_even :: "real \<Rightarrow> int" where
  "round_half_even y =
     (let n = \<lfloor>y\<rfloor>; r = y - of_int n
      in if r < 1 / 2 then n
         else if 1 / 2 < r then n + 1
         else if even n then n else n + 1)"

definition double :: "real \<Rightarrow> real" where
  "double x =
     (if x = 0 then 0
      else (let e = \<lfloor>log 2 \<bar>x\<bar>\<rfloor>;
                ulp = 2 powi (e - 52)
            in sgn x * (of_int (round_half_even (\<bar>x\<bar> / ulp)) * ulp)))"

text \<open>
  An int operand of a float operation is converted to a float first: it is rounded in the
  same way, and the conversion raises OverflowError when the int is too large for a double.
\<close>

definition float_of_int :: "int \<Rightarrow> error + real" where
  "float_of_int n =
     (if \<bar>double (of_int n)\<bar> < 2 ^ 1024 then Inr (double (of_int n))
      else Inl OverflowError)"

section \<open>2020-spring: constants\<close>

definition EMAIL :: nat where "EMAIL = 1"
definition ROLE :: nat where "ROLE = 2"
definition MENTOR_available_time :: nat where "MENTOR_available_time = 5"
definition MENTOR_EXPERIENCED_FIELDS :: nat where "MENTOR_EXPERIENCED_FIELDS = 6"
definition MENTOR_KNOWLEDGEABLE_TOPICS :: nat where "MENTOR_KNOWLEDGEABLE_TOPICS = 7"
definition MENTEE_DESIRED_TOPICS :: nat where "MENTEE_DESIRED_TOPICS = 10"
definition MENTEE_INTERESTED_FIELDS :: nat where "MENTEE_INTERESTED_FIELDS = 11"
definition YEAR :: nat where "YEAR = 13"

definition YEAR_VALUES :: "(string \<times> int) list" where
  "YEAR_VALUES =
     [(''Freshman'', 1), (''Sophomore'', 2), (''Junior'', 3), (''Senior'', 4),
      (''Masters'', 4), (''Alum'', 5)]"

text \<open>\<open>YEAR_VALUES[label]\<close>: KeyError for a label that is not a key.\<close>

definition year_value :: "string \<Rightarrow> error + int" where
  "year_value label = (case map_of YEAR_VALUES label of None \<Rightarrow> Inl KeyError | Some v \<Rightarrow> Inr v)"

section \<open>2020-spring: data classes\<close>

record Student =
  email :: string
  year :: string

record Mentee = Student +
  interested_fields :: "string fset"
  desired_topics :: "string fset"

record Mentor = Student +
  experienced_fields :: "string fset"
  knowledgeable_topics :: "string fset"
  available_time :: int
  copy_number :: int

text \<open>\<open>Student.from_survey_response\<close>: reads the e-mail and the year columns.\<close>

definition Student_from_survey_response :: "string list \<Rightarrow> error + Student" where
  "Student_from_survey_response row =
     (case getitem row EMAIL of Inl e \<Rightarrow> Inl e | Inr em \<Rightarrow>
     (case getitem row YEAR of Inl e \<Rightarrow> Inl e | Inr yr \<Rightarrow>
      Inr \<lparr>email = em, year = yr\<rparr>))"

text \<open>
  \<open>Mentee.from_survey_response\<close>: the two tag columns are split at \<open>;\<close> and
  turned into frozensets.
\<close>

definition Mentee_from_survey_response :: "string list \<Rightarrow> error + Mentee" where
  "Mentee_from_survey_response row =
     (case Student_from_survey_response row of Inl e \<Rightarrow> Inl e | Inr student \<Rightarrow>
     (case getitem row MENTEE_INTERESTED_FIELDS of Inl e \<Rightarrow> Inl e | Inr field_text \<Rightarrow>
     (case getitem row MENTEE_DESIRED_TOPICS of Inl e \<Rightarrow> Inl e | Inr topic_text \<Rightarrow>
      Inr \<lparr>email = email student, year = year student,
           interested_fields = fset_of_list (split CHR '';'' field_text),
           desired_topics = fset_of_list (split CHR '';'' topic_text)\<rparr>)))"

text \<open>
  \<open>Mentor.from_survey_response\<close>. The builtin \<open>int\<close> is a parameter, \<open>py_int\<close>,
  with \<open>None\<close> for its ValueError; the script then falls back to one hour. A mentor
  read from the survey has the class default \<open>copy_number = 0\<close>.
\<close>

definition Mentor_from_survey_response ::
    "(string \<Rightarrow> int option) \<Rightarrow> string list \<Rightarrow> error + Mentor" where
  "Mentor_from_survey_response py_int row =
     (case Student_from_survey_response row of Inl e \<Rightarrow> Inl e | Inr student \<Rightarrow>
     (case getitem row MENTOR_EXPERIENCED_FIELDS of Inl e \<Rightarrow> Inl e | Inr field_text \<Rightarrow>
     (case getitem row MENTOR_KNOWLEDGEABLE_TOPICS of Inl e \<Rightarrow> Inl e | Inr topic_text \<Rightarrow>
     (case getitem row MENTOR_available_time of Inl e \<Rightarrow> Inl e | Inr hours_text \<Rightarrow>
      (let hours = (case py_int hours_text of None \<Rightarrow> 1 | Some h \<Rightarrow> h)
       in Inr \<lparr>email = email student, year = year student,
               experienced_fields = fset_of_list (split CHR '';'' field_text),
               knowledgeable_topics = fset_of_list (split CHR '';'' topic_text),
               available_time = hours,
               copy_number = 0\<rparr>)))))"

text \<open>\<open>Mentor.num_mentees_possible\<close>: the hours, capped at three mentees.\<close>

definition num_mentees_possible :: "Mentor \<Rightarrow> int" where
  "num_mentees_possible self =
     (if available_time self \<le> 2 then available_time self else 3)"

text \<open>
  \<open>Mentor.copy_self_for_bipartite_graph\<close>: the list starts with the mentor itself and
  gets one copy for every \<open>duplicate_number\<close> of \<open>range(1, num_mentees_possible)\<close>.
\<close>

definition copy_self_for_bipartite_graph :: "Mentor \<Rightarrow> Mentor list" where
  "copy_self_for_bipartite_graph self =
     self # map (\<lambda>duplicate_number. self\<lparr>copy_number := duplicate_number\<rparr>)
                [1..num_mentees_possible self - 1]"

section \<open>2020-spring: the edge scorer\<close>

text \<open>
  The breakdown of a weight is a Python dict from criterion names to numbers; it is kept as
  an association list in insertion order, and \<open>d[k] = v\<close> is \<open>setitem k v d\<close>: a new
  key goes to the end, a key already present keeps its place. The numbers are doubles, kept
  as the real numbers they stand for.
\<close>

type_synonym statistics = "(string \<times> real) list"

fun setitem :: "string \<Rightarrow> 'v \<Rightarrow> (string \<times> 'v) list \<Rightarrow> (string \<times> 'v) list" where
  "setitem k v [] = [(k, v)]"
| "setitem k v (p # ps) = (if fst p = k then (k, v) # ps else p # setitem k v ps)"

text \<open>
  \<open>MentorshipEdge\<close>: the pair and the two private fields \<open>_weight\<close> and
  \<open>_statistics\<close>, which are \<open>None\<close> until the weight is first computed.
\<close>

record MentorshipEdge =
  mentee :: Mentee
  mentor :: Mentor
  weight_memo :: "real option"
  statistics_memo :: "statistics option"

definition MentorshipEdge_init :: "Mentee \<Rightarrow> Mentor \<Rightarrow> MentorshipEdge" where
  "MentorshipEdge_init a b =
     \<lparr>mentee = a, mentor = b, weight_memo = None, statistics_memo = None\<rparr>"

definition CAREER_INTERESTS_MULTIPLIER :: real where "CAREER_INTERESTS_MULTIPLIER = 5"
definition RECRUITMENT_TOPICS_MULTIPLIER :: real where "RECRUITMENT_TOPICS_MULTIPLIER = 3"
definition MENTOR_NOT_OLDER_PENALTY :: real where "MENTOR_NOT_OLDER_PENALTY = 10000000"
definition MENTOR_CLOSE_IN_YEAR_BONUS :: real where "MENTOR_CLOSE_IN_YEAR_BONUS = 1"
definition MENTOR_TAKES_ON_ANOTHER_MENTEE_PENALTY :: int where
  "MENTOR_TAKES_ON_ANOTHER_MENTEE_PENALTY = 100"

text \<open>
  \<open>MentorshipEdge.compute_weight_and_statistics\<close>, statement by statement. The two
  divisions raise ZeroDivisionError on a zero denominator, the two look-ups in
  \<open>YEAR_VALUES\<close> raise KeyError (the mentor's year is looked up first). Every
  operation on floats is rounded: the true division of two ints, the product of a
  multiplier and a fraction, and each update of \<open>weight\<close>. The product of the slot
  penalty and \<open>copy_number\<close> is a product of ints, exact, and is converted to a float
  for the last subtraction.
\<close>

definition compute_weight_and_statistics :: "MentorshipEdge \<Rightarrow> error + real \<times> statistics" where
  "compute_weight_and_statistics self =
     (let weight = 0;
          statistics = [];
          num_interests_overlap =
            fcard (interested_fields (mentee self) |\<inter>| experienced_fields (mentor self));
          num_mentee_interests = fcard (interested_fields (mentee self))
      in if num_mentee_interests = 0 then Inl ZeroDivisionError else
      let interests_overlap_fraction =
            double (real num_interests_overlap / real num_mentee_interests);
          statistics = setitem ''interests_overlap_fraction'' interests_overlap_fraction statistics;
          weight = double (weight + double (CAREER_INTERESTS_MULTIPLIER * interests_overlap_fraction));
          num_topics_overlap =
            fcard (desired_topics (mentee self) |\<inter>| knowledgeable_topics (mentor self));
          num_mentee_topics = fcard (desired_topics (mentee self))
      in if num_mentee_topics = 0 then Inl ZeroDivisionError else
      let topics_overlap_fraction = double (real num_topics_overlap / real num_mentee_topics);
          statistics = setitem ''topics_overlap_fraction'' topics_overlap_fraction statistics;
          weight = double (weight + double (RECRUITMENT_TOPICS_MULTIPLIER * topics_overlap_fraction))
      in (case year_value (year (mentor self)) of Inl e \<Rightarrow> Inl e | Inr mentor_year \<Rightarrow>
         (case year_value (year (mentee self)) of Inl e \<Rightarrow> Inl e | Inr mentee_year \<Rightarrow>
      let year_difference = mentor_year - mentee_year;
          statistics = setitem ''year_difference'' (real_of_int year_difference) statistics;
          weight = (if year_difference \<le> 0 then double (weight - MENTOR_NOT_OLDER_PENALTY)
                    else weight);
          weight = (if year_difference = 1 \<or> year_difference = 2
                    then double (weight + MENTOR_CLOSE_IN_YEAR_BONUS) else weight)
      in (case float_of_int (MENTOR_TAKES_ON_ANOTHER_MENTEE_PENALTY * copy_number (mentor self)) of
            Inl e \<Rightarrow> Inl e
          | Inr penalty \<Rightarrow> Inr (double (weight - penalty), statistics)))))"

text \<open>
  The two overlap fractions as the breakdown records them, for use in statements about the
  weight.
\<close>

definition interests_overlap_fraction :: "MentorshipEdge \<Rightarrow> real" where
  "interests_overlap_fraction self =
     double (real (fcard (interested_fields (mentee self) |\<inter>| experienced_fields (mentor self)))
             / real (fcard (interested_fields (mentee self))))"

definition topics_overlap_fraction :: "MentorshipEdge \<Rightarrow> real" where
  "topics_overlap_fraction self =
     double (real (fcard (desired_topics (mentee self) |\<inter>| knowledgeable_topics (mentor self)))
             / real (fcard (desired_topics (mentee self))))"

text \<open>
  The property \<open>weight\<close>: computes and stores weight and breakdown on the first read,
  and returns the stored weight afterwards. The edge is returned with its fields updated.
\<close>

definition weight :: "MentorshipEdge \<Rightarrow> error + real \<times> MentorshipEdge" where
  "weight self =
     (case weight_memo self of
        Some w \<Rightarrow> Inr (w, self)
      | None \<Rightarrow>
          (case compute_weight_and_statistics self of
             Inl e \<Rightarrow> Inl e
           | Inr (w, s) \<Rightarrow> Inr (w, self\<lparr>weight_memo := Some w, statistics_memo := Some s\<rparr>)))"

section \<open>2020-spring: reporting\<close>

definition DEBUG :: bool where "DEBUG = True"

text \<open>
  \<open>statistics.mean\<close> and \<open>statistics.stdev\<close> of the Python standard library: the
  arithmetic mean, which raises StatisticsError on no data, and the sample standard
  deviation, the square root of the sum of squared deviations from the mean over
  \<open>n - 1\<close>, which raises StatisticsError on fewer than two data points. Both are taken
  as the exact values; the library returns them rounded to doubles.
\<close>

definition mean :: "real list \<Rightarrow> error + real" where
  "mean data =
     (if length data < 1 then Inl StatisticsError
      else Inr (sum_list data / real (length data)))"

definition stdev :: "real list \<Rightarrow> error + real" where
  "stdev data =
     (if length data < 2 then Inl StatisticsError
      else (let xbar = sum_list data / real (length data)
            in Inr (sqrt (sum_list (map (\<lambda>x. (x - xbar)\<^sup>2) data) / real (length data - 1)))))"

text \<open>
  \<open>edge._statistics[criteria_name]\<close>: TypeError when the breakdown was never computed
  (the field is \<open>None\<close>), KeyError when the criterion is not a key.
\<close>

definition statistics_getitem :: "string \<Rightarrow> MentorshipEdge \<Rightarrow> error + real" where
  "statistics_getitem criteria_name edge =
     (case statistics_memo edge of
        None \<Rightarrow> Inl TypeError
      | Some d \<Rightarrow> (case map_of d criteria_name of None \<Rightarrow> Inl KeyError | Some v \<Rightarrow> Inr v))"

text \<open>A list comprehension \<open>[f(x) for x in xs]\<close> whose body can raise.\<close>

fun comprehension :: "('a \<Rightarrow> error + 'b) \<Rightarrow> 'a list \<Rightarrow> error + 'b list" where
  "comprehension f [] = Inr []"
| "comprehension f (x # xs) =
     (case f x of Inl e \<Rightarrow> Inl e | Inr y \<Rightarrow>
     (case comprehension f xs of Inl e \<Rightarrow> Inl e | Inr ys \<Rightarrow> Inr (y # ys)))"

text \<open>
  The loop of \<open>print_overall_matching_statistics\<close> over the criterion names, with the
  dict \<open>overall_statistics\<close> as accumulator.
\<close>

fun overall_statistics_loop ::
    "MentorshipEdge list \<Rightarrow> string list \<Rightarrow> (string \<times> real) list \<Rightarrow> error + (string \<times> real) list" where
  "overall_statistics_loop edges [] overall_statistics = Inr overall_statistics"
| "overall_statistics_loop edges (criteria_name # names) overall_statistics =
     (case comprehension (statistics_getitem criteria_name) edges of Inl e \<Rightarrow> Inl e | Inr data \<Rightarrow>
     (case mean data of Inl e \<Rightarrow> Inl e | Inr avg \<Rightarrow>
     (case comprehension (statistics_getitem criteria_name) edges of Inl e \<Rightarrow> Inl e | Inr data' \<Rightarrow>
     (case stdev data' of Inl e \<Rightarrow> Inl e | Inr stddev \<Rightarrow>
        overall_statistics_loop edges names
          (setitem (criteria_name @ ''_stddev'') stddev
             (setitem (criteria_name @ ''_avg'') avg overall_statistics))))))"

text \<open>
  \<open>print_overall_matching_statistics\<close>; the result is the list of the printed lines,
  each a name and a value. \<open>edges[0]\<close> raises IndexError on no edges, and
  \<open>None.keys()\<close> raises AttributeError.
\<close>

definition print_overall_matching_statistics ::
    "MentorshipEdge list \<Rightarrow> error + (string \<times> real) list" where
  "print_overall_matching_statistics edges =
     (if \<not> DEBUG then Inr []
      else (case edges of
              [] \<Rightarrow> Inl IndexError
            | first_edge # _ \<Rightarrow>
                (case statistics_memo first_edge of
                   None \<Rightarrow> Inl AttributeError
                 | Some d \<Rightarrow> overall_statistics_loop edges (map fst d) [])))"

text \<open>
  The specification's words: the mean of a sample, its sample standard deviation, and the
  values of one criterion across the edges.
\<close>

definition sample_mean :: "real list \<Rightarrow> real" where
  "sample_mean xs = sum_list xs / real (length xs)"

definition sample_standard_deviation :: "real list \<Rightarrow> real" where
  "sample_standard_deviation xs =
     sqrt (sum_list (map (\<lambda>x. (x - sample_mean xs)\<^sup>2) xs) / real (length xs - 1))"

definition criterion_values :: "string \<Rightarrow> MentorshipEdge list \<Rightarrow> real list" where
  "criterion_values criteria_name edges =
     map (\<lambda>edge. case statistics_memo edge of
                   None \<Rightarrow> 0
                 | Some d \<Rightarrow> (case map_of d criteria_name of None \<Rightarrow> 0 | Some v \<Rightarrow> v)) edges"

text \<open>
  A scored edge: its two private fields hold the weight and the breakdown that the scorer
  computes for its pair, as they do once the property \<open>weight\<close> has been read, which the
  constructor of the graph does for every edge.
\<close>

definition scored :: "MentorshipEdge \<Rightarrow> bool" where
  "scored edge =
     (case compute_weight_and_statistics edge of
        Inl e \<Rightarrow> False
      | Inr (w, s) \<Rightarrow> weight_memo edge = Some w \<and> statistics_memo edge = Some s)"

section \<open>2021-spring: constants and data classes\<close>

text \<open>
  The second variant of the script. Its names carry the suffix \<open>_2021\<close>; \<open>getitem\<close>,
  \<open>split\<close>, \<open>setitem\<close> and \<open>YEAR_VALUES\<close> are the same in both variants.
\<close>

definition EMAIL_2021 :: nat where "EMAIL_2021 = 1"
definition ROLE_2021 :: nat where "ROLE_2021 = 2"
definition NAME_2021 :: nat where "NAME_2021 = 3"
definition YEAR_2021 :: nat where "YEAR_2021 = 4"
definition GMT_TIMEZONE_2021 :: nat where "GMT_TIMEZONE_2021 = 5"
definition MENTOR_PREFER_GENDER_2021 :: nat where "MENTOR_PREFER_GENDER_2021 = 6"
definition MENTOR_GENDER_2021 :: nat where "MENTOR_GENDER_2021 = 7"
definition MENTOR_PREFER_RACE_2021 :: nat where "MENTOR_PREFER_RACE_2021 = 8"
definition MENTOR_RACE_2021 :: nat where "MENTOR_RACE_2021 = 9"
definition MENTOR_NUMBER_OF_MENTEES_2021 :: nat where "MENTOR_NUMBER_OF_MENTEES_2021 = 10"
definition MENTOR_TIME_AVAILABLE_2021 :: nat where "MENTOR_TIME_AVAILABLE_2021 = 11"
definition MENTOR_CS_EXPERIENCE_2021 :: nat where "MENTOR_CS_EXPERIENCE_2021 = 12"
definition MENTOR_EXPERIENCED_FIELDS_2021 :: nat where "MENTOR_EXPERIENCED_FIELDS_2021 = 13"
definition MENTOR_COMFORTABLE_HELPING_2021 :: nat where "MENTOR_COMFORTABLE_HELPING_2021 = 14"
definition MENTOR_HOBBIES_2021 :: nat where "MENTOR_HOBBIES_2021 = 15"
definition MENTEE_CS_EXPERIENCE_2021 :: nat where "MENTEE_CS_EXPERIENCE_2021 = 17"
definition MENTEE_PREFER_GENDER_2021 :: nat where "MENTEE_PREFER_GENDER_2021 = 18"
definition MENTEE_GENDER_2021 :: nat where "MENTEE_GENDER_2021 = 19"
definition MENTEE_PREFER_RACE_2021 :: nat where "MENTEE_PREFER_RACE_2021 = 20"
definition MENTEE_RACE_2021 :: nat where "MENTEE_RACE_2021 = 21"
definition MENTEE_TIME_AVAILABLE_2021 :: nat where "MENTEE_TIME_AVAILABLE_2021 = 22"
definition MENTEE_DESIRED_TOPICS_2021 :: nat where "MENTEE_DESIRED_TOPICS_2021 = 23"
definition MENTEE_INTERESTED_FIELDS_2021 :: nat where "MENTEE_INTERESTED_FIELDS_2021 = 24"
definition MENTEE_HOBBIES_2021 :: nat where "MENTEE_HOBBIES_2021 = 25"

text \<open>
  The attributes an instance can carry. \<open>does_prefer_gender\<close> and \<open>does_prefer_race\<close>
  are assigned only for two of the possible answers, so they are optional: \<open>None\<close> is
  an instance without the attribute. No code assigns \<open>gender\<close>, \<open>race\<close>,
  \<open>actual\<close> or \<open>time_available\<close>, so no instance has them.
\<close>

record Student_2021 =
  email_2021 :: string
  name_2021 :: string
  year_2021 :: string
  time_zone_2021 :: int

record Mentee_2021 = Student_2021 +
  interested_fields_2021 :: "string fset"
  desired_topics_2021 :: "string fset"
  mentee_hobbies_2021 :: "string fset"
  mentee_cs_experience_2021 :: int
  mentee_available_time_2021 :: int
  mentee_does_prefer_gender_2021 :: "bool option"
  mentee_does_prefer_race_2021 :: "bool option"

record Mentor_2021 = Student_2021 +
  experienced_fields_2021 :: "string fset"
  knowledgeable_topics_2021 :: "string fset"
  mentor_hobbies_2021 :: "string fset"
  num_mentees_2021 :: int
  mentor_cs_experience_2021 :: int
  mentor_available_time_2021 :: int
  mentor_does_prefer_gender_2021 :: "bool option"
  mentor_does_prefer_race_2021 :: "bool option"
  copy_number_2021 :: int

text \<open>\<open>int(row[i])\<close>, with the builtin \<open>int\<close> as the parameter \<open>py_int\<close>.\<close>

definition int_getitem :: "(string \<Rightarrow> int option) \<Rightarrow> string list \<Rightarrow> nat \<Rightarrow> error + int" where
  "int_getitem py_int row i =
     (case getitem row i of Inl e \<Rightarrow> Inl e | Inr text \<Rightarrow>
     (case py_int text of None \<Rightarrow> Inl ValueError | Some n \<Rightarrow> Inr n))"

text \<open>
  \<open>Student.from_survey_response\<close>. The constructor is called as
  \<open>Student(email, year, name, time_zone)\<close> while the fields are declared in the order
  email, name, year, time zone: the field \<open>name\<close> gets the year column and the field
  \<open>year\<close> the name column.
\<close>

definition Student_from_survey_response_2021 ::
    "(string \<Rightarrow> int option) \<Rightarrow> string list \<Rightarrow> error + Student_2021" where
  "Student_from_survey_response_2021 py_int row =
     (case getitem row EMAIL_2021 of Inl e \<Rightarrow> Inl e | Inr email_text \<Rightarrow>
     (case getitem row YEAR_2021 of Inl e \<Rightarrow> Inl e | Inr year_text \<Rightarrow>
     (case getitem row NAME_2021 of Inl e \<Rightarrow> Inl e | Inr name_text \<Rightarrow>
     (case int_getitem py_int row GMT_TIMEZONE_2021 of Inl e \<Rightarrow> Inl e | Inr time_zone \<Rightarrow>
      Inr \<lparr>email_2021 = email_text, name_2021 = year_text, year_2021 = name_text,
           time_zone_2021 = time_zone\<rparr>))))"

text \<open>
  The answer to a preference question: the attribute is set to \<open>True\<close> for
  \<open>Yes\<close>, to \<open>False\<close> for \<open>No preference\<close>, and is not set otherwise.
\<close>

definition does_prefer :: "string \<Rightarrow> bool option" where
  "does_prefer answer =
     (if answer = ''Yes'' then Some True
      else if answer = ''No preference'' then Some False
      else None)"

text \<open>
  \<open>Mentee.from_survey_response\<close>. The gender and race columns are read into local
  variables and dropped.
\<close>

definition Mentee_from_survey_response_2021 ::
    "(string \<Rightarrow> int option) \<Rightarrow> string list \<Rightarrow> error + Mentee_2021" where
  "Mentee_from_survey_response_2021 py_int row =
     (case Student_from_survey_response_2021 py_int row of Inl e \<Rightarrow> Inl e | Inr student \<Rightarrow>
     (case getitem row MENTEE_INTERESTED_FIELDS_2021 of Inl e \<Rightarrow> Inl e | Inr field_text \<Rightarrow>
     (case getitem row MENTEE_DESIRED_TOPICS_2021 of Inl e \<Rightarrow> Inl e | Inr topic_text \<Rightarrow>
     (case getitem row MENTEE_HOBBIES_2021 of Inl e \<Rightarrow> Inl e | Inr hobby_text \<Rightarrow>
     (case int_getitem py_int row MENTEE_CS_EXPERIENCE_2021 of Inl e \<Rightarrow> Inl e | Inr experience \<Rightarrow>
     (case int_getitem py_int row MENTEE_TIME_AVAILABLE_2021 of Inl e \<Rightarrow> Inl e | Inr hours \<Rightarrow>
     (case getitem row MENTEE_PREFER_GENDER_2021 of Inl e \<Rightarrow> Inl e | Inr gender_answer \<Rightarrow>
     (case getitem row MENTEE_GENDER_2021 of Inl e \<Rightarrow> Inl e | Inr mentee_gender \<Rightarrow>
     (case getitem row MENTEE_PREFER_RACE_2021 of Inl e \<Rightarrow> Inl e | Inr race_answer \<Rightarrow>
     (case getitem row MENTEE_RACE_2021 of Inl e \<Rightarrow> Inl e | Inr mentee_race \<Rightarrow>
      Inr \<lparr>email_2021 = email_2021 student, name_2021 = name_2021 student,
           year_2021 = year_2021 student, time_zone_2021 = time_zone_2021 student,
           interested_fields_2021 = fset_of_list (split CHR '';'' field_text),
           desired_topics_2021 = fset_of_list (split CHR '';'' topic_text),
           mentee_hobbies_2021 = fset_of_list (split CHR '';'' hobby_text),
           mentee_cs_experience_2021 = experience,
           mentee_available_time_2021 = hours,
           mentee_does_prefer_gender_2021 = does_prefer gender_answer,
           mentee_does_prefer_race_2021 = does_prefer race_answer\<rparr>))))))))))"

text \<open>\<open>Mentor.from_survey_response\<close>; \<open>copy_number\<close> is the class default, zero.\<close>

definition Mentor_from_survey_response_2021 ::
    "(string \<Rightarrow> int option) \<Rightarrow> string list \<Rightarrow> error + Mentor_2021" where
  "Mentor_from_survey_response_2021 py_int row =
     (case Student_from_survey_response_2021 py_int row of Inl e \<Rightarrow> Inl e | Inr student \<Rightarrow>
     (case getitem row MENTOR_EXPERIENCED_FIELDS_2021 of Inl e \<Rightarrow> Inl e | Inr field_text \<Rightarrow>
     (case getitem row MENTOR_COMFORTABLE_HELPING_2021 of Inl e \<Rightarrow> Inl e | Inr topic_text \<Rightarrow>
     (case getitem row MENTOR_HOBBIES_2021 of Inl e \<Rightarrow> Inl e | Inr hobby_text \<Rightarrow>
     (case int_getitem py_int row MENTOR_NUMBER_OF_MENTEES_2021 of Inl e \<Rightarrow> Inl e | Inr mentees \<Rightarrow>
     (case int_getitem py_int row MENTOR_CS_EXPERIENCE_2021 of Inl e \<Rightarrow> Inl e | Inr experience \<Rightarrow>
     (case int_getitem py_int row MENTOR_TIME_AVAILABLE_2021 of Inl e \<Rightarrow> Inl e | Inr hours \<Rightarrow>
     (case getitem row MENTOR_PREFER_GENDER_2021 of Inl e \<Rightarrow> Inl e | Inr gender_answer \<Rightarrow>
     (case getitem row MENTOR_GENDER_2021 of Inl e \<Rightarrow> Inl e | Inr mentor_gender \<Rightarrow>
     (case getitem row MENTOR_PREFER_RACE_2021 of Inl e \<Rightarrow> Inl e | Inr race_answer \<Rightarrow>
     (case getitem row MENTOR_RACE_2021 of Inl e \<Rightarrow> Inl e | Inr mentor_race \<Rightarrow>
      Inr \<lparr>email_2021 = email_2021 student, name_2021 = name_2021 student,
           year_2021 = year_2021 student, time_zone_2021 = time_zone_2021 student,
           experienced_fields_2021 = fset_of_list (split CHR '';'' field_text),
           knowledgeable_topics_2021 = fset_of_list (split CHR '';'' topic_text),
           mentor_hobbies_2021 = fset_of_list (split CHR '';'' hobby_text),
           num_mentees_2021 = mentees,
           mentor_cs_experience_2021 = experience,
           mentor_available_time_2021 = hours,
           mentor_does_prefer_gender_2021 = does_prefer gender_answer,
           mentor_does_prefer_race_2021 = does_prefer race_answer,
           copy_number_2021 = 0\<rparr>)))))))))))"

text \<open>\<open>Mentor.copy_self_for_bipartite_graph\<close>, over \<open>range(1, num_mentees)\<close>.\<close>

definition copy_self_for_bipartite_graph_2021 :: "Mentor_2021 \<Rightarrow> Mentor_2021 list" where
  "copy_self_for_bipartite_graph_2021 self =
     self # map (\<lambda>duplicate_number. self\<lparr>copy_number_2021 := duplicate_number\<rparr>)
                [1..num_mentees_2021 self - 1]"

section \<open>2021-spring: the edge scorer\<close>

text \<open>The breakdown of the second variant holds numbers and booleans.\<close>

datatype statistic = Number real | Boolean bool

type_synonym statistics_2021 = "(string \<times> statistic) list"

record MentorshipEdge_2021 =
  mentee_2021 :: Mentee_2021
  mentor_2021 :: Mentor_2021
  weight_memo_2021 :: "real option"
  statistics_memo_2021 :: "statistics_2021 option"

definition HOBBIES_TOPICS_MULTIPLIER :: real where "HOBBIES_TOPICS_MULTIPLIER = 3 / 2"
definition GENDER_SAME_BONUS :: real where "GENDER_SAME_BONUS = 20"
definition RACE_SAME_BONUS :: real where "RACE_SAME_BONUS = 20"
definition TIME_ZONE_DIFFERENCE_PENALTY :: real where "TIME_ZONE_DIFFERENCE_PENALTY = 5"

text \<open>
  The nested function \<open>compute_with_overlap\<close>. Its last statement is
  \<open>self.weight += multiplier * overlap_fraction\<close>: it reads the property \<open>weight\<close>
  of the edge, whose outcome is the argument \<open>self_weight\<close>, and then assigns the sum to
  that property, which has no setter, so the assignment raises AttributeError. The local
  variable \<open>weight\<close> of the scorer is not touched.
\<close>

definition compute_with_overlap ::
    "(error + real) \<Rightarrow> nat \<Rightarrow> nat \<Rightarrow> string \<Rightarrow> real \<Rightarrow> statistics_2021
     \<Rightarrow> error + statistics_2021" where
  "compute_with_overlap self_weight num_overlap num_mentee stat_field multiplier statistics =
     (if num_mentee = 0 then Inl ZeroDivisionError
      else (let overlap_fraction = double (real num_overlap / real num_mentee);
                statistics = setitem stat_field (Number overlap_fraction) statistics
            in (case self_weight of
                  Inl e \<Rightarrow> Inl e
                | Inr w \<Rightarrow> Inl AttributeError)))"

text \<open>
  The nested function \<open>gender_and_race\<close>. When both sides prefer a match it compares
  \<open>self.mentor.actual\<close> with \<open>self.mentee.actual\<close>, an attribute that no instance
  has, so the read raises AttributeError; otherwise both booleans of the breakdown are
  \<open>False\<close> and nothing is added.
\<close>

definition gender_and_race ::
    "bool \<Rightarrow> bool \<Rightarrow> string \<Rightarrow> string \<Rightarrow> real \<Rightarrow> statistics_2021 \<Rightarrow> error + statistics_2021" where
  "gender_and_race mentor_preference mentee_preference stat_field1 stat_field2 bonus statistics =
     (let does_prefer = (mentor_preference \<and> mentee_preference);
          statistics = setitem stat_field1 (Boolean does_prefer) statistics
      in if does_prefer then Inl AttributeError
         else (let preferred_and_same = False
               in Inr (setitem stat_field2 (Boolean preferred_and_same) statistics)))"

text \<open>
  \<open>MentorshipEdge.compute_weight_and_statistics\<close> of the second variant. The first
  argument bounds the depth of the recursion, as the interpreter's recursion limit does:
  \<open>compute_with_overlap\<close> reads the property \<open>weight\<close>, which calls this function
  again as long as \<open>_weight\<close> is \<open>None\<close>. The body is followed up to the read of
  \<open>self.mentor.time_available\<close> under criterion 8, which raises AttributeError because
  the attribute of the class is \<open>available_time\<close>; no statement after it can run.
\<close>

fun compute_weight_and_statistics_2021 ::
    "nat \<Rightarrow> MentorshipEdge_2021 \<Rightarrow> error + real \<times> statistics_2021" where
  "compute_weight_and_statistics_2021 0 self = Inl RecursionError"
| "compute_weight_and_statistics_2021 (Suc depth) self =
     (let weight = 0;
          statistics = [];
          self_weight =
            (case weight_memo_2021 self of
               Some w \<Rightarrow> Inr w
             | None \<Rightarrow>
                 (case compute_weight_and_statistics_2021 depth self of
                    Inl e \<Rightarrow> Inl e
                  | Inr (w, s) \<Rightarrow> Inr w));
          num_interests_overlap =
            fcard (interested_fields_2021 (mentee_2021 self)
                   |\<inter>| experienced_fields_2021 (mentor_2021 self));
          num_mentee_interests = fcard (interested_fields_2021 (mentee_2021 self))
      in (case compute_with_overlap self_weight num_interests_overlap num_mentee_interests
                ''interests_overlap_fraction'' CAREER_INTERESTS_MULTIPLIER statistics of
            Inl e \<Rightarrow> Inl e | Inr statistics \<Rightarrow>
         (let num_topics_overlap =
                fcard (desired_topics_2021 (mentee_2021 self)
                       |\<inter>| knowledgeable_topics_2021 (mentor_2021 self));
              num_mentee_topics = fcard (desired_topics_2021 (mentee_2021 self))
          in (case compute_with_overlap self_weight num_topics_overlap num_mentee_topics
                    ''topics_overlap_fraction'' RECRUITMENT_TOPICS_MULTIPLIER statistics of
                Inl e \<Rightarrow> Inl e | Inr statistics \<Rightarrow>
             (case year_value (year_2021 (mentor_2021 self)) of
                Inl e \<Rightarrow> Inl e | Inr mentor_year \<Rightarrow>
             (case year_value (year_2021 (mentee_2021 self)) of
                Inl e \<Rightarrow> Inl e | Inr mentee_year \<Rightarrow>
             (let year_difference = mentor_year - mentee_year;
                  statistics =
                    setitem ''year_difference'' (Number (real_of_int year_difference)) statistics;
                  weight = (if year_difference \<le> 0
                            then double (weight - MENTOR_NOT_OLDER_PENALTY) else weight);
                  weight = (if year_difference = 1 \<or> year_difference = 2
                            then double (weight + MENTOR_CLOSE_IN_YEAR_BONUS) else weight);
                  num_hobbies_overlap =
                    fcard (mentee_hobbies_2021 (mentee_2021 self)
                           |\<inter>| mentor_hobbies_2021 (mentor_2021 self));
                  num_mentee_hobbies = fcard (mentee_hobbies_2021 (mentee_2021 self))
              in if num_mentee_hobbies = 0 then Inl ZeroDivisionError else
             (let hobbies_overlap_fraction =
                    double (real num_hobbies_overlap / real num_mentee_hobbies);
                  statistics =
                    setitem ''hobbies_overlap_fraction'' (Number hobbies_overlap_fraction)
                      statistics;
                  weight = double (weight + double (HOBBIES_TOPICS_MULTIPLIER
                                                    * hobbies_overlap_fraction))
              in (case mentor_does_prefer_gender_2021 (mentor_2021 self) of
                    None \<Rightarrow> Inl AttributeError | Some mentor_gender_preference \<Rightarrow>
                 (case mentee_does_prefer_gender_2021 (mentee_2021 self) of
                    None \<Rightarrow> Inl AttributeError | Some mentee_gender_preference \<Rightarrow>
                 (case gender_and_race mentor_gender_preference mentee_gender_preference
                         ''does_prefer_gender'' ''gender_preferred_and_same''
                         GENDER_SAME_BONUS statistics of
                    Inl e \<Rightarrow> Inl e | Inr statistics \<Rightarrow>
                 (case mentor_does_prefer_race_2021 (mentor_2021 self) of
                    None \<Rightarrow> Inl AttributeError | Some mentor_race_preference \<Rightarrow>
                 (case mentee_does_prefer_race_2021 (mentee_2021 self) of
                    None \<Rightarrow> Inl AttributeError | Some mentee_race_preference \<Rightarrow>
                 (case gender_and_race mentor_race_preference mentee_race_preference
                         ''does_prefer_race'' ''race_preferred_and_same''
                         RACE_SAME_BONUS statistics of
                    Inl e \<Rightarrow> Inl e | Inr statistics \<Rightarrow>
                 (let mentor_time_zone = time_zone_2021 (mentor_2021 self);
                      mentee_time_zone = time_zone_2021 (mentee_2021 self);
                      time_difference = \<bar>mentor_time_zone - mentee_time_zone\<bar>;
                      statistics =
                        setitem ''time_difference'' (Number (real_of_int time_difference))
                          statistics;
                      weight = (if time_difference \<ge> 5
                                then double (weight - TIME_ZONE_DIFFERENCE_PENALTY) else weight)
                  in Inl AttributeError)))))))))))))))"

section \<open>Properties of the 2020-spring parser\<close>

lemmas column_defs =
  EMAIL_def ROLE_def MENTOR_available_time_def MENTOR_EXPERIENCED_FIELDS_def
  MENTOR_KNOWLEDGEABLE_TOPICS_def MENTEE_DESIRED_TOPICS_def MENTEE_INTERESTED_FIELDS_def
  YEAR_def

lemmas weighting_defs =
  CAREER_INTERESTS_MULTIPLIER_def RECRUITMENT_TOPICS_MULTIPLIER_def
  MENTOR_NOT_OLDER_PENALTY_def MENTOR_CLOSE_IN_YEAR_BONUS_def
  MENTOR_TAKES_ON_ANOTHER_MENTEE_PENALTY_def

lemma split_not_Nil: "split sep s \<noteq> []"
  by (induction s) (auto split: list.splits)

lemma frozenset_split_nonempty: "fset_of_list (split sep s) \<noteq> {||}"
  using split_not_Nil [of sep s] by (cases "split sep s") auto

text \<open>A row parses exactly when it reaches the year column, the last one read.\<close>

lemma Mentee_from_survey_response_Inr:
  assumes "Mentee_from_survey_response row = Inr a"
  shows "YEAR < length row
       \<and> a = \<lparr>email = row ! EMAIL, year = row ! YEAR,
              interested_fields = fset_of_list (split CHR '';'' (row ! MENTEE_INTERESTED_FIELDS)),
              desired_topics = fset_of_list (split CHR '';'' (row ! MENTEE_DESIRED_TOPICS))\<rparr>"
  using assms
  by (auto simp: Mentee_from_survey_response_def Student_from_survey_response_def getitem_def
           split: sum.splits if_splits)

lemma Mentee_from_survey_response_long:
  assumes "YEAR < length row"
  shows "Mentee_from_survey_response row =
         Inr \<lparr>email = row ! EMAIL, year = row ! YEAR,
              interested_fields = fset_of_list (split CHR '';'' (row ! MENTEE_INTERESTED_FIELDS)),
              desired_topics = fset_of_list (split CHR '';'' (row ! MENTEE_DESIRED_TOPICS))\<rparr>"
  using assms
  by (simp add: Mentee_from_survey_response_def Student_from_survey_response_def getitem_def
                column_defs)

lemma Mentor_from_survey_response_Inr:
  assumes "Mentor_from_survey_response py_int row = Inr b"
  shows "YEAR < length row
       \<and> experienced_fields b = fset_of_list (split CHR '';'' (row ! MENTOR_EXPERIENCED_FIELDS))
       \<and> knowledgeable_topics b = fset_of_list (split CHR '';'' (row ! MENTOR_KNOWLEDGEABLE_TOPICS))
       \<and> available_time b = (case py_int (row ! MENTOR_available_time) of None \<Rightarrow> 1 | Some h \<Rightarrow> h)
       \<and> copy_number b = 0"
  using assms
  by (auto simp: Mentor_from_survey_response_def Student_from_survey_response_def getitem_def Let_def
           split: sum.splits if_splits)

lemma Mentor_from_survey_response_long:
  assumes "YEAR < length row"
  shows "Mentor_from_survey_response py_int row =
         Inr \<lparr>email = row ! EMAIL, year = row ! YEAR,
              experienced_fields = fset_of_list (split CHR '';'' (row ! MENTOR_EXPERIENCED_FIELDS)),
              knowledgeable_topics = fset_of_list (split CHR '';'' (row ! MENTOR_KNOWLEDGEABLE_TOPICS)),
              available_time = (case py_int (row ! MENTOR_available_time) of None \<Rightarrow> 1 | Some h \<Rightarrow> h),
              copy_number = 0\<rparr>"
  using assms
  by (simp add: Mentor_from_survey_response_def Student_from_survey_response_def getitem_def
                column_defs)

text \<open>
  C7, as the code has it: a multi-value column whose text is the empty string is parsed
  without error, and the tag set it gives is the one-element set holding the empty tag.
  This holds for the four tag columns: the mentee's interested fields and desired topics,
  the mentor's experienced fields and knowledgeable topics.
\<close>

theorem empty_field_parses_to_singleton:
  assumes "YEAR < length row"
  shows "(row ! MENTEE_INTERESTED_FIELDS = [] \<longrightarrow>
            map_sum id interested_fields (Mentee_from_survey_response row) = Inr {|[]|})
       \<and> (row ! MENTEE_DESIRED_TOPICS = [] \<longrightarrow>
            map_sum id desired_topics (Mentee_from_survey_response row) = Inr {|[]|})
       \<and> (row ! MENTOR_EXPERIENCED_FIELDS = [] \<longrightarrow>
            map_sum id experienced_fields (Mentor_from_survey_response py_int row) = Inr {|[]|})
       \<and> (row ! MENTOR_KNOWLEDGEABLE_TOPICS = [] \<longrightarrow>
            map_sum id knowledgeable_topics (Mentor_from_survey_response py_int row) = Inr {|[]|})"
  by (simp add: Mentee_from_survey_response_long [OF assms]
                Mentor_from_survey_response_long [OF assms])

text \<open>A row of fourteen columns whose tag columns are all empty.\<close>

theorem empty_field_parses_to_singleton_witness:
  "map_sum id interested_fields (Mentee_from_survey_response
      [''4/25/2020'', ''ann@u.northwestern.edu'', ''Mentee'', '''', '''', '''', '''', '''', '''',
       '''', '''', '''', '''', ''Freshman'']) = Inr {|[]|}
 \<and> map_sum id desired_topics (Mentee_from_survey_response
      [''4/25/2020'', ''ann@u.northwestern.edu'', ''Mentee'', '''', '''', '''', '''', '''', '''',
       '''', '''', '''', '''', ''Freshman'']) = Inr {|[]|}
 \<and> map_sum id experienced_fields (Mentor_from_survey_response (\<lambda>s. None)
      [''4/25/2020'', ''ann@u.northwestern.edu'', ''Mentee'', '''', '''', '''', '''', '''', '''',
       '''', '''', '''', '''', ''Freshman'']) = Inr {|[]|}
 \<and> map_sum id knowledgeable_topics (Mentor_from_survey_response (\<lambda>s. None)
      [''4/25/2020'', ''ann@u.northwestern.edu'', ''Mentee'', '''', '''', '''', '''', '''', '''',
       '''', '''', '''', '''', ''Freshman'']) = Inr {|[]|}"
  using empty_field_parses_to_singleton
    [of "[''4/25/2020'', ''ann@u.northwestern.edu'', ''Mentee'', '''', '''', '''', '''', '''', '''',
       '''', '''', '''', '''', ''Freshman'']" "\<lambda>s. None"]
  by (simp add: column_defs)

text \<open>
  C7 as the specification words it fails: for a mentee row whose interested-fields column
  is the empty string, the parsed set is not the empty set.
\<close>

theorem empty_field_not_empty_set:
  "map_sum id interested_fields (Mentee_from_survey_response
      [''4/25/2020'', ''ann@u.northwestern.edu'', ''Mentee'', '''', '''', '''', '''', '''', '''',
       '''', ''Resume'', '''', '''', ''Freshman'']) \<noteq> Inr {||}"
  by (simp add: Mentee_from_survey_response_def Student_from_survey_response_def getitem_def
                column_defs)

section \<open>Properties of rounding to a double\<close>

text \<open>
  Rounding to a double is monotone, leaves doubles as they are, in particular integers
  below \<open>2 ^ 53\<close> in size, and has a relative error of \<open>1 / 2 ^ 53\<close> at most;
  \<open>double_near\<close> and \<open>double_tie\<close> compute it for a given number.
\<close>

lemma round_half_even_of_int [simp]: "round_half_even (of_int k) = k"
  by (simp add: round_half_even_def)

lemma round_half_even_bounds:
  "real_of_int (round_half_even y) \<le> y + 1 / 2" "y - 1 / 2 \<le> real_of_int (round_half_even y)"
  unfolding round_half_even_def Let_def by (auto; linarith)+

lemma round_half_even_mono: "y \<le> z \<Longrightarrow> round_half_even y \<le> round_half_even z"
proof -
  assume yz: "y \<le> z"
  have fl: "\<lfloor>y\<rfloor> \<le> \<lfloor>z\<rfloor>" using yz by (rule floor_mono)
  show ?thesis
  proof (cases "\<lfloor>y\<rfloor> = \<lfloor>z\<rfloor>")
    case True
    then show ?thesis using yz
      unfolding round_half_even_def Let_def by auto
  next
    case False
    with fl have "\<lfloor>y\<rfloor> + 1 \<le> \<lfloor>z\<rfloor>" by simp
    moreover have "round_half_even y \<le> \<lfloor>y\<rfloor> + 1"
      unfolding round_half_even_def Let_def by auto
    moreover have "\<lfloor>z\<rfloor> \<le> round_half_even z"
      unfolding round_half_even_def Let_def by auto
    ultimately show ?thesis by linarith
  qed
qed

lemma binade:
  assumes "0 < x"
  shows "2 powi \<lfloor>log 2 x\<rfloor> \<le> x" and "x < 2 powi (\<lfloor>log 2 x\<rfloor> + 1)"
proof -
  have "2 powr real_of_int \<lfloor>log 2 x\<rfloor> \<le> x \<and> x < 2 powr (real_of_int \<lfloor>log 2 x\<rfloor> + 1)"
    using floor_log_eq_powr_iff [of x 2 "\<lfloor>log 2 x\<rfloor>"] assms by simp
  moreover have "real_of_int \<lfloor>log 2 x\<rfloor> + 1 = real_of_int (\<lfloor>log 2 x\<rfloor> + 1)" by simp
  ultimately show "2 powi \<lfloor>log 2 x\<rfloor> \<le> x" and "x < 2 powi (\<lfloor>log 2 x\<rfloor> + 1)"
    by (simp_all only: powr_real_of_int' [of 2, simplified])
qed

lemma powr_powi_2: "2 powr real_of_int e = 2 powi e"
  by (rule powr_real_of_int') simp_all

lemma binade_unique:
  assumes "2 powi e \<le> x" and "x < 2 powi (e + 1)"
  shows "\<lfloor>log 2 x\<rfloor> = e"
proof -
  have "(0::real) < 2 powi e" by simp
  with assms(1) have pos: "0 < x" by linarith
  have "2 powr (real_of_int e + 1) = 2 powr real_of_int (e + 1)" by simp
  also have "\<dots> = 2 powi (e + 1)" by (rule powr_powi_2)
  finally have "2 powr real_of_int e \<le> x \<and> x < 2 powr (real_of_int e + 1)"
    using assms by (simp add: powr_powi_2)
  then show ?thesis
    using floor_log_eq_powr_iff [of x 2 e] pos by simp
qed

lemma double_0 [simp]: "double 0 = 0"
  by (simp add: double_def)

lemma double_minus: "double (- x) = - double x"
  by (simp add: double_def Let_def sgn_minus)

lemma double_pos_eval:
  assumes "2 powi e \<le> x" and "x < 2 powi (e + 1)"
  shows "double x = of_int (round_half_even (x / 2 powi (e - 52))) * 2 powi (e - 52)"
proof -
  have "(0::real) < 2 powi e" by simp
  with assms(1) have pos: "0 < x" by linarith
  have "\<lfloor>log 2 \<bar>x\<bar>\<rfloor> = e"
    using binade_unique [OF assms] pos by simp
  then show ?thesis
    using pos by (simp add: double_def Let_def)
qed

lemma scaled_binade:
  fixes x :: real
  assumes "2 powi e \<le> x" and "x < 2 powi (e + 1)"
  shows "2 ^ 52 \<le> x / 2 powi (e - 52)" and "x / 2 powi (e - 52) < 2 ^ 53"
proof -
  have u: "(0::real) < 2 powi (e - 52)" by simp
  have a: "(2::real) powi e = 2 ^ 52 * 2 powi (e - 52)"
    by (simp add: power_int_diff)
  have b: "(2::real) powi (e + 1) = 2 ^ 53 * 2 powi (e - 52)"
    by (simp add: power_int_diff power_int_add)
  show "2 ^ 52 \<le> x / 2 powi (e - 52)"
    using assms(1) u unfolding a by (simp add: pos_le_divide_eq)
  show "x / 2 powi (e - 52) < 2 ^ 53"
    using assms(2) u unfolding b by (simp add: pos_divide_less_eq)
qed





lemma round_half_even_near:
  assumes "\<bar>y - of_int m\<bar> < 1 / 2"
  shows "round_half_even y = m"
proof -
  from assms have lo: "real_of_int m - 1 / 2 < y" and hi: "y < real_of_int m + 1 / 2"
    unfolding abs_less_iff by linarith+
  show ?thesis
  proof (cases "of_int m \<le> y")
    case True
    have "y < of_int m + 1" using hi by linarith
    with True have f: "\<lfloor>y\<rfloor> = m" by (intro floor_unique)
    have "y - of_int m < 1 / 2" using hi by linarith
    then show ?thesis unfolding round_half_even_def Let_def f by simp
  next
    case False
    have "of_int (m - 1) \<le> y" using lo by simp
    moreover have "y < of_int (m - 1) + 1" using False by simp
    ultimately have f: "\<lfloor>y\<rfloor> = m - 1" by (intro floor_unique)
    have "1 / 2 < y - of_int (m - 1)" using lo by simp
    then show ?thesis unfolding round_half_even_def Let_def f by simp
  qed
qed

lemma round_half_even_tie:
  assumes "y = of_int n + 1 / 2"
  shows "round_half_even y = (if even n then n else n + 1)"
proof -
  have "\<lfloor>y\<rfloor> = n" using assms by (intro floor_unique) simp_all
  then show ?thesis
    using assms unfolding round_half_even_def Let_def by simp
qed

lemma double_near:
  assumes "2 powi e \<le> x" and "x < 2 powi (e + 1)"
      and "\<bar>x / 2 powi (e - 52) - of_int m\<bar> < 1 / 2"
  shows "double x = of_int m * 2 powi (e - 52)"
  using double_pos_eval [OF assms(1,2)] round_half_even_near [OF assms(3)] by simp

lemma double_tie:
  assumes "2 powi e \<le> x" and "x < 2 powi (e + 1)"
      and "x / 2 powi (e - 52) = of_int n + 1 / 2"
  shows "double x = of_int (if even n then n else n + 1) * 2 powi (e - 52)"
  using double_pos_eval [OF assms(1,2)] round_half_even_tie [OF assms(3)] by simp

lemma double_representable_pos:
  assumes "0 < m" and "m < 2 ^ 53"
  shows "double (of_int m * 2 powi q) = of_int m * 2 powi q"
proof -
  let ?x = "real_of_int m * 2 powi q"
  have pos: "0 < ?x" using assms(1) by simp
  define e where "e = \<lfloor>log 2 ?x\<rfloor>"
  have b: "2 powi e \<le> ?x" "?x < 2 powi (e + 1)"
    using binade [OF pos] by (simp_all add: e_def)
  have "real_of_int m < real_of_int (2 ^ 53)"
    using assms(2) by (simp only: of_int_less_iff)
  then have "real_of_int m < 2 ^ 53" by simp
  then have "?x < 2 ^ 53 * 2 powi q" by simp
  also have "\<dots> = 2 powi (53 + q)" by (simp add: power_int_add)
  finally have lt: "(2::real) powi e < 2 powi (53 + q)" using b(1) by linarith
  have "e < 53 + q"
  proof (rule ccontr)
    assume "\<not> e < 53 + q"
    then have "53 + q \<le> e" by simp
    then have "(2::real) powi (53 + q) \<le> 2 powi e"
      by (intro power_int_increasing) simp_all
    with lt show False by linarith
  qed
  then have k: "0 \<le> q - (e - 52)" by simp
  define n where "n = nat (q - (e - 52))"
  have pk: "(2::real) powi (q - (e - 52)) = 2 ^ n"
    using k unfolding n_def power_int_def by simp
  have "?x / 2 powi (e - 52) = real_of_int m * 2 powi (q - (e - 52))"
    by (simp add: power_int_diff)
  also have "\<dots> = of_int (m * 2 ^ n)" unfolding pk by simp
  finally have "round_half_even (?x / 2 powi (e - 52)) = m * 2 ^ n"
    by (simp only: round_half_even_of_int)
  then have "double ?x = real_of_int (m * 2 ^ n) * 2 powi (e - 52)"
    using double_pos_eval [OF b] by simp
  also have "\<dots> = real_of_int m * (2 powi (q - (e - 52)) * 2 powi (e - 52))"
    unfolding pk by simp
  also have "2 powi (q - (e - 52)) * 2 powi (e - 52) = (2::real) powi q"
    by (simp flip: power_int_add)
  finally show ?thesis .
qed

lemma double_representable:
  assumes "\<bar>m\<bar> < 2 ^ 53"
  shows "double (of_int m * 2 powi q) = of_int m * 2 powi q"
proof -
  consider "0 < m" | "m = 0" | "m < 0" by linarith
  then show ?thesis
  proof cases
    case 1
    then have "m < 2 ^ 53" using assms by linarith
    with 1 show ?thesis by (rule double_representable_pos)
  next
    case 2
    then show ?thesis by simp
  next
    case 3
    then have "0 < - m" and "- m < 2 ^ 53" using assms by linarith+
    then have "double (of_int (- m) * 2 powi q) = of_int (- m) * 2 powi q"
      by (rule double_representable_pos)
    then show ?thesis
      using double_minus [of "of_int m * 2 powi q"] by simp
  qed
qed

lemma double_of_int: "\<bar>k\<bar> < 2 ^ 53 \<Longrightarrow> double (of_int k) = of_int k"
  using double_representable [of k 0] by simp

lemma double_idem_pos:
  assumes "0 < x"
  shows "double (double x) = double x"
proof -
  define e where "e = \<lfloor>log 2 x\<rfloor>"
  have b: "2 powi e \<le> x" "x < 2 powi (e + 1)"
    using binade [OF assms] by (simp_all add: e_def)
  define M where "M = round_half_even (x / 2 powi (e - 52))"
  have dx: "double x = of_int M * 2 powi (e - 52)"
    using double_pos_eval [OF b] by (simp add: M_def)
  have "round_half_even (of_int (2 ^ 52)) \<le> M"
    unfolding M_def using scaled_binade(1) [OF b] by (intro round_half_even_mono) simp
  then have lo: "2 ^ 52 \<le> M" by (simp only: round_half_even_of_int)
  have "M \<le> round_half_even (of_int (2 ^ 53))"
    unfolding M_def using scaled_binade(2) [OF b] by (intro round_half_even_mono) simp
  then have hi: "M \<le> 2 ^ 53" by (simp only: round_half_even_of_int)
  show ?thesis
  proof (cases "M = 2 ^ 53")
    case True
    have "(2::real) powi (e - 52) = 2 powi (e - 51) / 2"
      by (simp add: power_int_diff)
    then have "double x = of_int (2 ^ 52) * 2 powi (e - 51)"
      unfolding dx True by simp
    moreover have "double (of_int (2 ^ 52) * 2 powi (e - 51)) = of_int (2 ^ 52) * 2 powi (e - 51)"
      by (rule double_representable) simp
    ultimately show ?thesis by simp
  next
    case False
    with hi lo have "\<bar>M\<bar> < 2 ^ 53" by simp
    then show ?thesis
      unfolding dx by (rule double_representable)
  qed
qed

lemma double_idem [simp]: "double (double x) = double x"
proof -
  consider "0 < x" | "x = 0" | "x < 0" by linarith
  then show ?thesis
  proof cases
    case 1
    then show ?thesis by (rule double_idem_pos)
  next
    case 2
    then show ?thesis by simp
  next
    case 3
    then have "double (double (- x)) = double (- x)"
      by (intro double_idem_pos) simp
    then show ?thesis by (simp add: double_minus)
  qed
qed

lemma double_error_pos:
  assumes "0 < x"
  shows "\<bar>double x - x\<bar> \<le> x / 2 ^ 53"
proof -
  define e where "e = \<lfloor>log 2 x\<rfloor>"
  have b: "2 powi e \<le> x" "x < 2 powi (e + 1)"
    using binade [OF assms] by (simp_all add: e_def)
  define u :: real where "u = 2 powi (e - 52)"
  define y where "y = x / u"
  define M where "M = real_of_int (round_half_even y)"
  have u: "0 < u" by (simp add: u_def)
  have x: "x = y * u" using u by (simp add: y_def)
  have "\<bar>M - y\<bar> \<le> 1 / 2"
    using round_half_even_bounds [of y] unfolding M_def by linarith
  then have "\<bar>M - y\<bar> * u \<le> 1 / 2 * u"
    using u by (intro mult_right_mono) simp_all
  moreover have "double x = M * u"
    using double_pos_eval [OF b] by (simp add: M_def y_def u_def)
  then have "\<bar>double x - x\<bar> = \<bar>M - y\<bar> * u"
    using u unfolding x by (simp add: abs_mult flip: left_diff_distrib)
  moreover have "1 / 2 * u = 2 powi e / 2 ^ 53"
    by (simp add: u_def power_int_diff)
  moreover have "2 powi e / 2 ^ 53 \<le> x / 2 ^ 53"
    using b(1) by (simp add: divide_right_mono)
  ultimately show ?thesis by linarith
qed

lemma double_error: "\<bar>double x - x\<bar> \<le> \<bar>x\<bar> / 2 ^ 53"
proof -
  consider "0 < x" | "x = 0" | "x < 0" by linarith
  then show ?thesis
  proof cases
    case 1
    then show ?thesis using double_error_pos [of x] by simp
  next
    case 2
    then show ?thesis by simp
  next
    case 3
    then have "\<bar>double (- x) - (- x)\<bar> \<le> (- x) / 2 ^ 53"
      by (intro double_error_pos) simp
    moreover have "\<bar>double (- x) - (- x)\<bar> = \<bar>double x - x\<bar>"
      unfolding double_minus by (simp add: abs_minus_commute)
    ultimately show ?thesis using 3 by simp
  qed
qed

lemma float_of_int_small:
  assumes "\<bar>n\<bar> < 2 ^ 53"
  shows "float_of_int n = Inr (of_int n)"
proof -
  have "\<bar>real_of_int n\<bar> < real_of_int (2 ^ 53)"
    using assms by (simp only: of_int_less_iff flip: of_int_abs)
  then have "\<bar>real_of_int n\<bar> < 2 ^ 1024" by simp
  then show ?thesis
    by (simp add: float_of_int_def double_of_int [OF assms])
qed

lemma double_values:
  "double 1 = 1" "double 3 = 3" "double 5 = 5" "double 8 = 8"
  "double (- 200) = - 200" "double (- 9999992) = - 9999992"
  using double_of_int [of 1] double_of_int [of 3] double_of_int [of 5] double_of_int [of 8]
        double_of_int [of "- 200"] double_of_int [of "- 9999992"]
  by simp_all


lemma double_half:
  assumes "\<bar>m\<bar> < 2 ^ 53"
  shows "double (of_int m / 2) = of_int m / 2"
  using double_representable [OF assms, of "- 1"] by simp

lemma double_dyadic_values:
  "double (1 / 2) = 1 / 2" "double (5 / 2) = 5 / 2" "double (7 / 2) = 7 / 2"
  "double (11 / 2) = 11 / 2" "double (- (393 / 2)) = - (393 / 2)"
  "double (- (19999989 / 2)) = - (19999989 / 2)" "double (- 199) = - 199"
  "double 9 = 9" "double 4 = 4"
  using double_half [of 1] double_half [of 5] double_half [of 7] double_half [of 11]
        double_half [of "- 393"] double_half [of "- 19999989"] double_of_int [of "- 199"]
        double_of_int [of 9] double_of_int [of 4]
  by simp_all

lemma float_of_int_values:
  "float_of_int 0 = Inr 0" "float_of_int 100 = Inr 100" "float_of_int 200 = Inr 200"
  using float_of_int_small [of 0] float_of_int_small [of 100] float_of_int_small [of 200]
  by simp_all

lemma float_of_int_error: "float_of_int n = Inl e \<Longrightarrow> e = OverflowError"
  by (simp add: float_of_int_def split: if_splits)

section \<open>Properties of the 2020-spring capacity expansion and edge scorer\<close>




text \<open>
  For a capacity \<open>k \<ge> 1\<close> the expansion gives \<open>k\<close> slots, numbered \<open>0\<close> to
  \<open>k - 1\<close>, which differ from the mentor in the slot number only.
\<close>

lemma capacity_expansion_positive:
  assumes "1 \<le> num_mentees_possible m" and "copy_number m = 0"
  shows "length (copy_self_for_bipartite_graph m) = nat (num_mentees_possible m)"
    and "map copy_number (copy_self_for_bipartite_graph m) = [0..num_mentees_possible m - 1]"
    and "\<forall>slot \<in> set (copy_self_for_bipartite_graph m). slot\<lparr>copy_number := 0\<rparr> = m"
proof -
  show "length (copy_self_for_bipartite_graph m) = nat (num_mentees_possible m)"
    using assms(1) by (simp add: copy_self_for_bipartite_graph_def)
  have "map copy_number (copy_self_for_bipartite_graph m) = 0 # [1..num_mentees_possible m - 1]"
    using assms(2) by (simp add: copy_self_for_bipartite_graph_def comp_def)
  also have "\<dots> = [0..num_mentees_possible m - 1]"
    using assms(1) by (simp add: upto_rec1 [of 0])
  finally show "map copy_number (copy_self_for_bipartite_graph m) = [0..num_mentees_possible m - 1]" .
  show "\<forall>slot \<in> set (copy_self_for_bipartite_graph m). slot\<lparr>copy_number := 0\<rparr> = m"
    using assms(2) by (auto simp: copy_self_for_bipartite_graph_def)
qed

text \<open>
  C2 at capacity zero: a mentor who answered zero hours has \<open>num_mentees_possible = 0\<close>,
  and the expansion still returns one slot, the mentor itself, where the claim and the
  docstring of \<open>copy_self_for_bipartite_graph\<close> ask for as many instances as mentees
  the mentor can take on, here none.
\<close>

theorem zero_capacity_mentor_keeps_one_slot:
  "num_mentees_possible
     \<lparr>email = ''max@u.northwestern.edu'', year = ''Senior'', experienced_fields = {|''ML''|},
      knowledgeable_topics = {|''Resume''|}, available_time = 0, copy_number = 0\<rparr> = 0
 \<and> length (copy_self_for_bipartite_graph
     \<lparr>email = ''max@u.northwestern.edu'', year = ''Senior'', experienced_fields = {|''ML''|},
      knowledgeable_topics = {|''Resume''|}, available_time = 0, copy_number = 0\<rparr>) = 1"
  by (simp add: num_mentees_possible_def copy_self_for_bipartite_graph_def)

text \<open>What the scorer returns when it returns: the closed form of weight and breakdown.\<close>

lemma compute_weight_and_statistics_Inr:
  assumes "compute_weight_and_statistics self = Inr (w, s)"
  shows "\<exists>mentor_year mentee_year penalty.
           interested_fields (mentee self) \<noteq> {||}
         \<and> desired_topics (mentee self) \<noteq> {||}
         \<and> year_value (year (mentor self)) = Inr mentor_year
         \<and> year_value (year (mentee self)) = Inr mentee_year
         \<and> float_of_int (MENTOR_TAKES_ON_ANOTHER_MENTEE_PENALTY * copy_number (mentor self))
             = Inr penalty
         \<and> w = double
                 ((if mentor_year - mentee_year \<le> 0
                   then double
                          (double (double (CAREER_INTERESTS_MULTIPLIER * interests_overlap_fraction self)
                                   + double (RECRUITMENT_TOPICS_MULTIPLIER * topics_overlap_fraction self))
                           - MENTOR_NOT_OLDER_PENALTY)
                   else if mentor_year - mentee_year = 1 \<or> mentor_year - mentee_year = 2
                   then double
                          (double (double (CAREER_INTERESTS_MULTIPLIER * interests_overlap_fraction self)
                                   + double (RECRUITMENT_TOPICS_MULTIPLIER * topics_overlap_fraction self))
                           + MENTOR_CLOSE_IN_YEAR_BONUS)
                   else double (double (CAREER_INTERESTS_MULTIPLIER * interests_overlap_fraction self)
                                + double (RECRUITMENT_TOPICS_MULTIPLIER * topics_overlap_fraction self)))
                  - penalty)
         \<and> s = [(''interests_overlap_fraction'', interests_overlap_fraction self),
                 (''topics_overlap_fraction'', topics_overlap_fraction self),
                 (''year_difference'', real_of_int (mentor_year - mentee_year))]"
proof -
  have ne: "interested_fields (mentee self) \<noteq> {||}" "desired_topics (mentee self) \<noteq> {||}"
    using assms
    by (auto simp: compute_weight_and_statistics_def Let_def fcard_fempty split: if_splits)
  obtain mentor_year where my: "year_value (year (mentor self)) = Inr mentor_year"
    using assms ne
    by (cases "year_value (year (mentor self))")
       (auto simp: compute_weight_and_statistics_def Let_def fcard_0_eq)
  obtain mentee_year where ty: "year_value (year (mentee self)) = Inr mentee_year"
    using assms ne my
    by (cases "year_value (year (mentee self))")
       (auto simp: compute_weight_and_statistics_def Let_def fcard_0_eq)
  obtain penalty where
    p: "float_of_int (MENTOR_TAKES_ON_ANOTHER_MENTEE_PENALTY * copy_number (mentor self))
        = Inr penalty"
    using assms ne my ty
    by (cases "float_of_int (MENTOR_TAKES_ON_ANOTHER_MENTEE_PENALTY * copy_number (mentor self))")
       (auto simp: compute_weight_and_statistics_def Let_def fcard_0_eq)
  have n0: "fcard (interested_fields (mentee self)) \<noteq> 0"
           "fcard (desired_topics (mentee self)) \<noteq> 0"
    using ne by (simp_all add: fcard_0_eq)
  have "Inr (w, s) = compute_weight_and_statistics self"
    using assms by simp
  also have "\<dots> = Inr (double
                 ((if mentor_year - mentee_year \<le> 0
                   then double
                          (double (double (CAREER_INTERESTS_MULTIPLIER * interests_overlap_fraction self)
                                   + double (RECRUITMENT_TOPICS_MULTIPLIER * topics_overlap_fraction self))
                           - MENTOR_NOT_OLDER_PENALTY)
                   else if mentor_year - mentee_year = 1 \<or> mentor_year - mentee_year = 2
                   then double
                          (double (double (CAREER_INTERESTS_MULTIPLIER * interests_overlap_fraction self)
                                   + double (RECRUITMENT_TOPICS_MULTIPLIER * topics_overlap_fraction self))
                           + MENTOR_CLOSE_IN_YEAR_BONUS)
                   else double (double (CAREER_INTERESTS_MULTIPLIER * interests_overlap_fraction self)
                                + double (RECRUITMENT_TOPICS_MULTIPLIER * topics_overlap_fraction self)))
                  - penalty),
            [(''interests_overlap_fraction'', interests_overlap_fraction self),
             (''topics_overlap_fraction'', topics_overlap_fraction self),
             (''year_difference'', real_of_int (mentor_year - mentee_year))])"
    unfolding compute_weight_and_statistics_def Let_def
              interests_overlap_fraction_def topics_overlap_fraction_def
    using n0 my ty p by simp
  finally show ?thesis
    using ne my ty p by blast
qed



text \<open>With both tag sets of the mentee non-empty the scorer does not divide by zero.\<close>

lemma compute_weight_and_statistics_no_zero_division:
  assumes "interested_fields (mentee e) \<noteq> {||}" and "desired_topics (mentee e) \<noteq> {||}"
  shows "compute_weight_and_statistics e \<noteq> Inl ZeroDivisionError"
proof
  assume z: "compute_weight_and_statistics e = Inl ZeroDivisionError"
  have n0: "fcard (interested_fields (mentee e)) \<noteq> 0"
           "fcard (desired_topics (mentee e)) \<noteq> 0"
    using assms by (simp_all add: fcard_0_eq)
  show False
  proof (cases "year_value (year (mentor e))")
    case (Inl err)
    then show False
      using z n0 by (simp add: compute_weight_and_statistics_def Let_def year_value_def
                          split: option.splits)
  next
    case my: (Inr mentor_year)
    show False
    proof (cases "year_value (year (mentee e))")
      case (Inl err)
      then show False
        using z n0 my by (simp add: compute_weight_and_statistics_def Let_def year_value_def
                               split: option.splits)
    next
      case ty: (Inr mentee_year)
      show False
      proof (cases "float_of_int (MENTOR_TAKES_ON_ANOTHER_MENTEE_PENALTY * copy_number (mentor e))")
        case (Inl err)
        with float_of_int_error have "err = OverflowError" by blast
        with Inl show False
          using z n0 my ty by (simp add: compute_weight_and_statistics_def Let_def)
      next
        case (Inr penalty)
        then show False
          using z n0 my ty by (simp add: compute_weight_and_statistics_def Let_def)
      qed
    qed
  qed
qed

lemmas scorer_eval =
  compute_weight_and_statistics_def Let_def fcard_finsert_if fcard_fempty year_value_def
  YEAR_VALUES_def weighting_defs interests_overlap_fraction_def topics_overlap_fraction_def
  double_values double_dyadic_values float_of_int_values



text \<open>
  C6, as the code of the first variant has it: the last step subtracts
  \<open>MENTOR_TAKES_ON_ANOTHER_MENTEE_PENALTY * copy_number\<close> in double arithmetic. For a
  mentee and a mentor scored at slot index zero with weight \<open>w0\<close>, the same pair at slot
  index \<open>j\<close> is scored too, with the same breakdown, and its weight is \<open>w0\<close> minus the
  penalty times \<open>j\<close>, rounded once to a double: it is off the exact difference by at most
  the relative error \<open>1 / 2 ^ 53\<close> of one rounding. So the weights of two slots \<open>i\<close> and
  \<open>j\<close> differ by the penalty times \<open>j - i\<close> up to these roundings, and agree on every
  other term.
\<close>

theorem slot_penalty_rounded:
  assumes "compute_weight_and_statistics (e\<lparr>mentor := (mentor e)\<lparr>copy_number := 0\<rparr>\<rparr>)
           = Inr (w0, s)"
      and "\<bar>MENTOR_TAKES_ON_ANOTHER_MENTEE_PENALTY * j\<bar> < 2 ^ 53"
  shows "compute_weight_and_statistics (e\<lparr>mentor := (mentor e)\<lparr>copy_number := j\<rparr>\<rparr>)
         = Inr (double (w0 - real_of_int (MENTOR_TAKES_ON_ANOTHER_MENTEE_PENALTY * j)), s)
       \<and> \<bar>double (w0 - real_of_int (MENTOR_TAKES_ON_ANOTHER_MENTEE_PENALTY * j))
           - (w0 - real_of_int (MENTOR_TAKES_ON_ANOTHER_MENTEE_PENALTY * j))\<bar>
         \<le> \<bar>w0 - real_of_int (MENTOR_TAKES_ON_ANOTHER_MENTEE_PENALTY * j)\<bar> / 2 ^ 53"
proof -
  have pj: "float_of_int (MENTOR_TAKES_ON_ANOTHER_MENTEE_PENALTY * j)
            = Inr (real_of_int (MENTOR_TAKES_ON_ANOTHER_MENTEE_PENALTY * j))"
    using assms(2) by (rule float_of_int_small)
  have p0: "float_of_int 0 = Inr 0"
    using float_of_int_small [of 0] by simp
  show ?thesis
    using assms(1) pj p0 double_error
    by (auto simp: compute_weight_and_statistics_def Let_def
             split: if_splits sum.splits)
qed

text \<open>Slots zero and two of one junior mentor, for the same mentee.\<close>

theorem slot_penalty_rounded_witness:
  "compute_weight_and_statistics
     \<lparr>mentee = \<lparr>email = ''ann@u.northwestern.edu'', year = ''Sophomore'',
                interested_fields = {|''ML'', ''Security''|}, desired_topics = {|''Resume''|}\<rparr>,
      mentor = \<lparr>email = ''cat@u.northwestern.edu'', year = ''Junior'',
                experienced_fields = {|''ML''|}, knowledgeable_topics = {|''Interviews''|},
                available_time = 3, copy_number = 0\<rparr>,
      weight_memo = None, statistics_memo = None\<rparr>
   = Inr (7 / 2,
          [(''interests_overlap_fraction'', 1 / 2), (''topics_overlap_fraction'', 0),
           (''year_difference'', 1)])
 \<and> compute_weight_and_statistics
     \<lparr>mentee = \<lparr>email = ''ann@u.northwestern.edu'', year = ''Sophomore'',
                interested_fields = {|''ML'', ''Security''|}, desired_topics = {|''Resume''|}\<rparr>,
      mentor = \<lparr>email = ''cat@u.northwestern.edu'', year = ''Junior'',
                experienced_fields = {|''ML''|}, knowledgeable_topics = {|''Interviews''|},
                available_time = 3, copy_number = 2\<rparr>,
      weight_memo = None, statistics_memo = None\<rparr>
   = Inr (double (7 / 2 - 200),
          [(''interests_overlap_fraction'', 1 / 2), (''topics_overlap_fraction'', 0),
           (''year_difference'', 1)])
 \<and> \<bar>double (7 / 2 - 200) - (7 / 2 - 200)\<bar> \<le> \<bar>7 / 2 - 200\<bar> / 2 ^ 53"
  using slot_penalty_rounded
    [of "\<lparr>mentee = \<lparr>email = ''ann@u.northwestern.edu'', year = ''Sophomore'',
                interested_fields = {|''ML'', ''Security''|}, desired_topics = {|''Resume''|}\<rparr>,
      mentor = \<lparr>email = ''cat@u.northwestern.edu'', year = ''Junior'',
                experienced_fields = {|''ML''|}, knowledgeable_topics = {|''Interviews''|},
                available_time = 3, copy_number = 0\<rparr>,
      weight_memo = None, statistics_memo = None\<rparr>"
        "7 / 2"
        "[(''interests_overlap_fraction'', 1 / 2), (''topics_overlap_fraction'', 0),
           (''year_difference'', 1)]"
        2]
  by (simp add: scorer_eval)

text \<open>
  C6 as the specification words it fails: the difference is not exact. A mentee with three
  interested fields and three desired topics and a mentor with three hours, one of the
  fields and one of the topics are read from two survey rows; the mentor has the slots 0, 1
  and 2. The weights stored for slots 1 and 2 are the doubles \<open>-96.33333333333333\<close> and
  \<open>-196.33333333333334\<close>, which differ by \<open>100 + 1 / 2 ^ 46\<close>, not by the penalty.
\<close>

theorem slot_difference_not_exact:
  "Mentee_from_survey_response
      [''4/25/2020'', ''ann@u.northwestern.edu'', ''Mentee'', '''', '''', '''', '''', '''', '''',
       '''', ''Resume;Interviews;Projects'', ''ML;Security;Web'', '''', ''Sophomore'']
   = Inr \<lparr>email = ''ann@u.northwestern.edu'', year = ''Sophomore'',
           interested_fields = {|''ML'', ''Security'', ''Web''|},
           desired_topics = {|''Resume'', ''Interviews'', ''Projects''|}\<rparr>
 \<and> Mentor_from_survey_response (map_of [(''3'', 3)])
      [''4/25/2020'', ''cat@u.northwestern.edu'', ''Mentor'', '''', '''', ''3'', ''ML'', ''Resume'',
       '''', '''', '''', '''', '''', ''Junior'']
   = Inr \<lparr>email = ''cat@u.northwestern.edu'', year = ''Junior'',
           experienced_fields = {|''ML''|}, knowledgeable_topics = {|''Resume''|},
           available_time = 3, copy_number = 0\<rparr>
 \<and> map copy_number (copy_self_for_bipartite_graph
        \<lparr>email = ''cat@u.northwestern.edu'', year = ''Junior'',
           experienced_fields = {|''ML''|}, knowledgeable_topics = {|''Resume''|},
           available_time = 3, copy_number = 0\<rparr>) = [0, 1, 2]
 \<and> compute_weight_and_statistics
     (MentorshipEdge_init
        \<lparr>email = ''ann@u.northwestern.edu'', year = ''Sophomore'',
           interested_fields = {|''ML'', ''Security'', ''Web''|},
           desired_topics = {|''Resume'', ''Interviews'', ''Projects''|}\<rparr>
        \<lparr>email = ''cat@u.northwestern.edu'', year = ''Junior'',
           experienced_fields = {|''ML''|}, knowledgeable_topics = {|''Resume''|},
           available_time = 3, copy_number = 1\<rparr>)
   = Inr (- (6778855689114965 / 2 ^ 46),
          [(''interests_overlap_fraction'', 6004799503160661 / 2 ^ 54),
           (''topics_overlap_fraction'', 6004799503160661 / 2 ^ 54),
           (''year_difference'', 1)])
 \<and> compute_weight_and_statistics
     (MentorshipEdge_init
        \<lparr>email = ''ann@u.northwestern.edu'', year = ''Sophomore'',
           interested_fields = {|''ML'', ''Security'', ''Web''|},
           desired_topics = {|''Resume'', ''Interviews'', ''Projects''|}\<rparr>
        \<lparr>email = ''cat@u.northwestern.edu'', year = ''Junior'',
           experienced_fields = {|''ML''|}, knowledgeable_topics = {|''Resume''|},
           available_time = 3, copy_number = 2\<rparr>)
   = Inr (- (6907865053440683 / 2 ^ 45),
          [(''interests_overlap_fraction'', 6004799503160661 / 2 ^ 54),
           (''topics_overlap_fraction'', 6004799503160661 / 2 ^ 54),
           (''year_difference'', 1)])
 \<and> - (6778855689114965 / 2 ^ 46) - (- (6907865053440683 / 2 ^ 45))
     \<noteq> real_of_int (MENTOR_TAKES_ON_ANOTHER_MENTEE_PENALTY * (2 - 1))"
proof -
  have d13: "double (1 / 3) = 6004799503160661 / 2 ^ 54"
    using double_near [of "- 2" "1 / 3" 6004799503160661] by simp
  have d53: "double (5 * (6004799503160661 / 2 ^ 54)) = 7505999378950826 / 2 ^ 52"
    using double_near [of 0 "5 * (6004799503160661 / 2 ^ 54)" 7505999378950826] by simp
  have d33: "double (3 * (6004799503160661 / 2 ^ 54)) = 1"
    using double_tie [of "- 1" "3 * (6004799503160661 / 2 ^ 54)" 9007199254740991] by simp
  have d1: "double (7505999378950826 / 2 ^ 52) = 7505999378950826 / 2 ^ 52"
    using double_representable [of 7505999378950826 "- 52"] by simp
  have dsum: "double (7505999378950826 / 2 ^ 52 + 1) = 6004799503160661 / 2 ^ 51"
    using double_near [of 1 "7505999378950826 / 2 ^ 52 + 1" 6004799503160661] by simp
  have dbonus: "double (6004799503160661 / 2 ^ 51 + 1) = 8256599316845909 / 2 ^ 51"
    using double_near [of 1 "6004799503160661 / 2 ^ 51 + 1" 8256599316845909] by simp
  have dm100: "double (8256599316845909 / 2 ^ 51 - 100) = - (6778855689114965 / 2 ^ 46)"
    using double_near [of 6 "- (8256599316845909 / 2 ^ 51 - 100)" 6778855689114965]
          double_minus [of "- (8256599316845909 / 2 ^ 51 - 100)"] by simp
  have dm200: "double (8256599316845909 / 2 ^ 51 - 200) = - (6907865053440683 / 2 ^ 45)"
    using double_near [of 7 "- (8256599316845909 / 2 ^ 51 - 200)" 6907865053440683]
          double_minus [of "- (8256599316845909 / 2 ^ 51 - 200)"] by simp
  have w1: "compute_weight_and_statistics
     (MentorshipEdge_init
        \<lparr>email = ''ann@u.northwestern.edu'', year = ''Sophomore'',
           interested_fields = {|''ML'', ''Security'', ''Web''|},
           desired_topics = {|''Resume'', ''Interviews'', ''Projects''|}\<rparr>
        \<lparr>email = ''cat@u.northwestern.edu'', year = ''Junior'',
           experienced_fields = {|''ML''|}, knowledgeable_topics = {|''Resume''|},
           available_time = 3, copy_number = 1\<rparr>)
   = Inr (double (double (double (double (double (5 * double (1 / 3)))
                                 + double (3 * double (1 / 3))) + 1) - 100),
          [(''interests_overlap_fraction'', double (1 / 3)),
           (''topics_overlap_fraction'', double (1 / 3)),
           (''year_difference'', 1)])"
    by (simp add: compute_weight_and_statistics_def Let_def fcard_finsert_if fcard_fempty
                  year_value_def YEAR_VALUES_def weighting_defs float_of_int_values
                  MentorshipEdge_init_def)
  have w2: "compute_weight_and_statistics
     (MentorshipEdge_init
        \<lparr>email = ''ann@u.northwestern.edu'', year = ''Sophomore'',
           interested_fields = {|''ML'', ''Security'', ''Web''|},
           desired_topics = {|''Resume'', ''Interviews'', ''Projects''|}\<rparr>
        \<lparr>email = ''cat@u.northwestern.edu'', year = ''Junior'',
           experienced_fields = {|''ML''|}, knowledgeable_topics = {|''Resume''|},
           available_time = 3, copy_number = 2\<rparr>)
   = Inr (double (double (double (double (double (5 * double (1 / 3)))
                                 + double (3 * double (1 / 3))) + 1) - 200),
          [(''interests_overlap_fraction'', double (1 / 3)),
           (''topics_overlap_fraction'', double (1 / 3)),
           (''year_difference'', 1)])"
    by (simp add: compute_weight_and_statistics_def Let_def fcard_finsert_if fcard_fempty
                  year_value_def YEAR_VALUES_def weighting_defs float_of_int_values
                  MentorshipEdge_init_def)
  have rows:
    "Mentee_from_survey_response
      [''4/25/2020'', ''ann@u.northwestern.edu'', ''Mentee'', '''', '''', '''', '''', '''', '''',
       '''', ''Resume;Interviews;Projects'', ''ML;Security;Web'', '''', ''Sophomore'']
     = Inr \<lparr>email = ''ann@u.northwestern.edu'', year = ''Sophomore'',
           interested_fields = {|''ML'', ''Security'', ''Web''|},
           desired_topics = {|''Resume'', ''Interviews'', ''Projects''|}\<rparr>"
    "Mentor_from_survey_response (map_of [(''3'', 3)])
      [''4/25/2020'', ''cat@u.northwestern.edu'', ''Mentor'', '''', '''', ''3'', ''ML'', ''Resume'',
       '''', '''', '''', '''', '''', ''Junior'']
     = Inr \<lparr>email = ''cat@u.northwestern.edu'', year = ''Junior'',
           experienced_fields = {|''ML''|}, knowledgeable_topics = {|''Resume''|},
           available_time = 3, copy_number = 0\<rparr>"
    by (simp_all add: Mentee_from_survey_response_def Mentor_from_survey_response_def
                      Student_from_survey_response_def getitem_def column_defs)
  have slots: "map copy_number (copy_self_for_bipartite_graph
        \<lparr>email = ''cat@u.northwestern.edu'', year = ''Junior'',
           experienced_fields = {|''ML''|}, knowledgeable_topics = {|''Resume''|},
           available_time = 3, copy_number = 0\<rparr>) = [0, 1, 2]"
    by (simp add: copy_self_for_bipartite_graph_def num_mentees_possible_def upto_rec1)
  have ne: "- (6778855689114965 / 2 ^ 46) - (- (6907865053440683 / 2 ^ 45))
     \<noteq> real_of_int (MENTOR_TAKES_ON_ANOTHER_MENTEE_PENALTY * (2 - 1))"
    by (simp add: MENTOR_TAKES_ON_ANOTHER_MENTEE_PENALTY_def)
  show ?thesis
    unfolding w1 w2 d13 d53 d1 d33 dsum dbonus dm100 dm200
    using rows slots ne by simp
qed




text \<open>
  C10: the tag sets of a mentee or a mentor built by \<open>from_survey_response\<close> have at
  least one element, since \<open>split\<close> never returns the empty list; so the scorer never
  raises ZeroDivisionError on an edge whose mentee was parsed from the survey.
\<close>

theorem survey_parsed_tag_sets_nonempty:
  "(Mentee_from_survey_response row_a = Inr a \<longrightarrow>
      interested_fields a \<noteq> {||} \<and> desired_topics a \<noteq> {||}
    \<and> compute_weight_and_statistics (e\<lparr>mentee := a\<rparr>) \<noteq> Inl ZeroDivisionError)
 \<and> (Mentor_from_survey_response py_int row_b = Inr b \<longrightarrow>
      experienced_fields b \<noteq> {||} \<and> knowledgeable_topics b \<noteq> {||})"
proof -
  have mentee_sets: "interested_fields a \<noteq> {||} \<and> desired_topics a \<noteq> {||}"
    if "Mentee_from_survey_response row_a = Inr a"
    using Mentee_from_survey_response_Inr [OF that] frozenset_split_nonempty by simp
  have no_zero: "compute_weight_and_statistics (e\<lparr>mentee := a\<rparr>) \<noteq> Inl ZeroDivisionError"
    if "interested_fields a \<noteq> {||}" and "desired_topics a \<noteq> {||}"
    using that by (intro compute_weight_and_statistics_no_zero_division) simp_all
  have mentor_sets: "experienced_fields b \<noteq> {||} \<and> knowledgeable_topics b \<noteq> {||}"
    if "Mentor_from_survey_response py_int row_b = Inr b"
    using Mentor_from_survey_response_Inr [OF that] frozenset_split_nonempty by simp
  show ?thesis
    using mentee_sets no_zero mentor_sets by blast
qed

text \<open>
  A mentee row with an empty interested-fields column, and a mentor row whose hours are not
  a number.
\<close>

theorem survey_parsed_tag_sets_nonempty_witness:
  "Mentee_from_survey_response
      [''4/25/2020'', ''ann@u.northwestern.edu'', ''Mentee'', '''', '''', '''', '''', '''', '''',
       '''', ''Resume;Interviews'', '''', '''', ''Freshman'']
   = Inr \<lparr>email = ''ann@u.northwestern.edu'', year = ''Freshman'',
           interested_fields = {|''''|}, desired_topics = {|''Resume'', ''Interviews''|}\<rparr>
 \<and> compute_weight_and_statistics
     \<lparr>mentee = \<lparr>email = ''ann@u.northwestern.edu'', year = ''Freshman'',
           interested_fields = {|''''|}, desired_topics = {|''Resume'', ''Interviews''|}\<rparr>,
      mentor = \<lparr>email = ''cat@u.northwestern.edu'', year = ''Junior'',
                experienced_fields = {|''ML''|}, knowledgeable_topics = {|''Interviews''|},
                available_time = 3, copy_number = 0\<rparr>,
      weight_memo = None, statistics_memo = None\<rparr> \<noteq> Inl ZeroDivisionError
 \<and> Mentor_from_survey_response (\<lambda>s. None)
      [''4/25/2020'', ''cat@u.northwestern.edu'', ''Mentor'', '''', '''', ''a few'', ''ML'', '''',
       '''', '''', '''', '''', '''', ''Junior'']
   = Inr \<lparr>email = ''cat@u.northwestern.edu'', year = ''Junior'',
           experienced_fields = {|''ML''|}, knowledgeable_topics = {|''''|},
           available_time = 1, copy_number = 0\<rparr>
 \<and> {|''''|} \<noteq> ({||} :: string fset)"
  using survey_parsed_tag_sets_nonempty
    [of "[''4/25/2020'', ''ann@u.northwestern.edu'', ''Mentee'', '''', '''', '''', '''', '''', '''',
       '''', ''Resume;Interviews'', '''', '''', ''Freshman'']"
        "\<lparr>email = ''ann@u.northwestern.edu'', year = ''Freshman'',
           interested_fields = {|''''|}, desired_topics = {|''Resume'', ''Interviews''|}\<rparr>"
        "\<lparr>mentee = \<lparr>email = ''ann@u.northwestern.edu'', year = ''Freshman'',
           interested_fields = {|''''|}, desired_topics = {|''Resume'', ''Interviews''|}\<rparr>,
      mentor = \<lparr>email = ''cat@u.northwestern.edu'', year = ''Junior'',
                experienced_fields = {|''ML''|}, knowledgeable_topics = {|''Interviews''|},
                available_time = 3, copy_number = 0\<rparr>,
      weight_memo = None, statistics_memo = None\<rparr>"
        "\<lambda>s. None"
        "[''4/25/2020'', ''cat@u.northwestern.edu'', ''Mentor'', '''', '''', ''a few'', ''ML'', '''',
       '''', '''', '''', '''', '''', ''Junior'']"
        "\<lparr>email = ''cat@u.northwestern.edu'', year = ''Junior'',
           experienced_fields = {|''ML''|}, knowledgeable_topics = {|''''|},
           available_time = 1, copy_number = 0\<rparr>"]
  by (simp add: Mentee_from_survey_response_def Mentor_from_survey_response_def
                Student_from_survey_response_def getitem_def column_defs)

section \<open>Properties of the 2020-spring report\<close>

text \<open>Reading the property \<open>weight\<close> of a fresh edge leaves a scored edge.\<close>

lemma weight_scored:
  assumes "weight (MentorshipEdge_init a b) = Inr (w, edge)"
  shows "scored edge"
  using assms
  by (auto simp: weight_def MentorshipEdge_init_def scored_def compute_weight_and_statistics_def
                 Let_def
           split: sum.splits if_splits)

lemma scored_statistics:
  assumes "scored edge"
  shows "\<exists>i t y. statistics_memo edge =
           Some [(''interests_overlap_fraction'', i), (''topics_overlap_fraction'', t),
                 (''year_difference'', y)]"
proof -
  obtain w s where c: "compute_weight_and_statistics edge = Inr (w, s)"
    and m: "statistics_memo edge = Some s"
    using assms by (auto simp: scored_def split: sum.splits)
  from compute_weight_and_statistics_Inr [OF c] m show ?thesis by blast
qed

lemma comprehension_scored:
  assumes "\<forall>edge \<in> set edges. scored edge"
      and "name \<in> {''interests_overlap_fraction'', ''topics_overlap_fraction'', ''year_difference''}"
  shows "comprehension (statistics_getitem name) edges = Inr (criterion_values name edges)"
  using assms(1)
proof (induction edges)
  case Nil
  show ?case by (simp add: criterion_values_def)
next
  case (Cons edge edges)
  from Cons.prems have "scored edge" by simp
  from scored_statistics [OF this] obtain i t y where
    "statistics_memo edge =
       Some [(''interests_overlap_fraction'', i), (''topics_overlap_fraction'', t),
             (''year_difference'', y)]" by blast
  with assms(2) have "\<exists>v. statistics_getitem name edge = Inr v
      \<and> criterion_values name [edge] = [v]"
    by (auto simp: statistics_getitem_def criterion_values_def)
  moreover have "comprehension (statistics_getitem name) edges = Inr (criterion_values name edges)"
    using Cons by simp
  ultimately show ?case
    by (auto simp: criterion_values_def)
qed

lemma length_criterion_values [simp]: "length (criterion_values name edges) = length edges"
  by (simp add: criterion_values_def)

lemma mean_sample_mean: "1 \<le> length data \<Longrightarrow> mean data = Inr (sample_mean data)"
  by (cases data) (simp_all add: mean_def sample_mean_def)

lemma print_overall_matching_statistics_keys:
  assumes "edges \<noteq> []" and "statistics_memo (hd edges) = Some d"
  shows "print_overall_matching_statistics edges = overall_statistics_loop edges (map fst d) []"
  using assms by (cases edges) (simp_all add: print_overall_matching_statistics_def DEBUG_def)

lemma stdev_sample_standard_deviation:
  "2 \<le> length data \<Longrightarrow> stdev data = Inr (sample_standard_deviation data)"
  by (simp add: stdev_def sample_standard_deviation_def sample_mean_def)

lemma stdev_single: "length data = 1 \<Longrightarrow> stdev data = Inl StatisticsError"
  by (simp add: stdev_def)

text \<open>
  C8, as the code has it. The edges are scored: their fields \<open>_weight\<close> and
  \<open>_statistics\<close> hold what the scorer computes. For two edges or more the report has,
  for each of the three criteria, the mean and the sample standard deviation of the
  criterion across the edges. For exactly one edge the standard deviation raises
  StatisticsError and nothing is reported; for no edge \<open>edges[0]\<close> raises IndexError.
\<close>

theorem overall_statistics_need_two_edges:
  assumes "\<forall>edge \<in> set edges. scored edge"
  shows "(2 \<le> length edges \<longrightarrow>
            print_overall_matching_statistics edges =
            Inr [(''interests_overlap_fraction_avg'',
                    sample_mean (criterion_values ''interests_overlap_fraction'' edges)),
                 (''interests_overlap_fraction_stddev'',
                    sample_standard_deviation (criterion_values ''interests_overlap_fraction'' edges)),
                 (''topics_overlap_fraction_avg'',
                    sample_mean (criterion_values ''topics_overlap_fraction'' edges)),
                 (''topics_overlap_fraction_stddev'',
                    sample_standard_deviation (criterion_values ''topics_overlap_fraction'' edges)),
                 (''year_difference_avg'',
                    sample_mean (criterion_values ''year_difference'' edges)),
                 (''year_difference_stddev'',
                    sample_standard_deviation (criterion_values ''year_difference'' edges))])
       \<and> (length edges = 1 \<longrightarrow> print_overall_matching_statistics edges = Inl StatisticsError)
       \<and> (length edges = 0 \<longrightarrow> print_overall_matching_statistics edges = Inl IndexError)"
proof -
  have cols: "comprehension (statistics_getitem name) edges = Inr (criterion_values name edges)"
    if "name \<in> {''interests_overlap_fraction'', ''topics_overlap_fraction'', ''year_difference''}"
    for name
    using comprehension_scored [OF assms that] .
  have keys: "\<exists>i t y. statistics_memo (hd edges) =
           Some [(''interests_overlap_fraction'', i), (''topics_overlap_fraction'', t),
                 (''year_difference'', y)]" if "edges \<noteq> []"
    using scored_statistics [of "hd edges"] assms that by simp
  have many: ?thesis if "2 \<le> length edges"
  proof -
    from that have ne: "edges \<noteq> []" by auto
    from keys [OF ne] obtain i t y where
      k: "statistics_memo (hd edges) =
           Some [(''interests_overlap_fraction'', i), (''topics_overlap_fraction'', t),
                 (''year_difference'', y)]" by blast
    show ?thesis
      using that ne
      by (simp add: print_overall_matching_statistics_keys [OF ne k] cols
                    mean_sample_mean stdev_sample_standard_deviation)
  qed
  have one: ?thesis if "length edges = 1"
  proof -
    from that have ne: "edges \<noteq> []" by auto
    from keys [OF ne] obtain i t y where
      k: "statistics_memo (hd edges) =
           Some [(''interests_overlap_fraction'', i), (''topics_overlap_fraction'', t),
                 (''year_difference'', y)]" by blast
    show ?thesis
      using that ne
      by (simp add: print_overall_matching_statistics_keys [OF ne k] cols
                    mean_sample_mean stdev_single)
  qed
  have none: ?thesis if "length edges = 0"
    using that by (simp add: print_overall_matching_statistics_def DEBUG_def)
  show ?thesis
    using many one none by linarith
qed

text \<open>
  C8 as the specification words it fails: with one winning edge the report is not produced
  with an undefined standard deviation, the computation stops with StatisticsError.
\<close>

theorem single_edge_report_crashes:
  "print_overall_matching_statistics
     [\<lparr>mentee = \<lparr>email = ''ann@u.northwestern.edu'', year = ''Sophomore'',
                 interested_fields = {|''ML'', ''Security''|}, desired_topics = {|''Resume''|}\<rparr>,
       mentor = \<lparr>email = ''cat@u.northwestern.edu'', year = ''Junior'',
                 experienced_fields = {|''ML''|}, knowledgeable_topics = {|''Interviews''|},
                 available_time = 3, copy_number = 0\<rparr>,
       weight_memo = Some (7 / 2),
       statistics_memo = Some [(''interests_overlap_fraction'', 1 / 2),
                               (''topics_overlap_fraction'', 0), (''year_difference'', 1)]\<rparr>]
   = Inl StatisticsError"
  by (simp add: print_overall_matching_statistics_def DEBUG_def statistics_getitem_def
                mean_def stdev_def)

text \<open>Reports over two scored edges, over one, and over none.\<close>

theorem overall_statistics_need_two_edges_witness:
  "print_overall_matching_statistics
     [\<lparr>mentee = \<lparr>email = ''ann@u.northwestern.edu'', year = ''Sophomore'',
                 interested_fields = {|''ML'', ''Security''|}, desired_topics = {|''Resume''|}\<rparr>,
       mentor = \<lparr>email = ''cat@u.northwestern.edu'', year = ''Junior'',
                 experienced_fields = {|''ML''|}, knowledgeable_topics = {|''Interviews''|},
                 available_time = 3, copy_number = 0\<rparr>,
       weight_memo = Some (7 / 2),
       statistics_memo = Some [(''interests_overlap_fraction'', 1 / 2),
                               (''topics_overlap_fraction'', 0), (''year_difference'', 1)]\<rparr>,
      \<lparr>mentee = \<lparr>email = ''dan@u.northwestern.edu'', year = ''Freshman'',
                 interested_fields = {|''ML''|}, desired_topics = {|''Resume''|}\<rparr>,
       mentor = \<lparr>email = ''bob@u.northwestern.edu'', year = ''Senior'',
                 experienced_fields = {|''ML''|}, knowledgeable_topics = {|''Resume''|},
                 available_time = 1, copy_number = 0\<rparr>,
       weight_memo = Some 8,
       statistics_memo = Some [(''interests_overlap_fraction'', 1),
                               (''topics_overlap_fraction'', 1), (''year_difference'', 3)]\<rparr>]
   = Inr [(''interests_overlap_fraction_avg'', 3 / 4),
          (''interests_overlap_fraction_stddev'', sqrt (1 / 8)),
          (''topics_overlap_fraction_avg'', 1 / 2),
          (''topics_overlap_fraction_stddev'', sqrt (1 / 2)),
          (''year_difference_avg'', 2),
          (''year_difference_stddev'', sqrt 2)]
 \<and> print_overall_matching_statistics
     [\<lparr>mentee = \<lparr>email = ''dan@u.northwestern.edu'', year = ''Freshman'',
                 interested_fields = {|''ML''|}, desired_topics = {|''Resume''|}\<rparr>,
       mentor = \<lparr>email = ''bob@u.northwestern.edu'', year = ''Senior'',
                 experienced_fields = {|''ML''|}, knowledgeable_topics = {|''Resume''|},
                 available_time = 1, copy_number = 0\<rparr>,
       weight_memo = Some 8,
       statistics_memo = Some [(''interests_overlap_fraction'', 1),
                               (''topics_overlap_fraction'', 1), (''year_difference'', 3)]\<rparr>]
   = Inl StatisticsError
 \<and> print_overall_matching_statistics [] = Inl IndexError"
proof -
  let ?e1 = "\<lparr>mentee = \<lparr>email = ''ann@u.northwestern.edu'', year = ''Sophomore'',
                 interested_fields = {|''ML'', ''Security''|}, desired_topics = {|''Resume''|}\<rparr>,
       mentor = \<lparr>email = ''cat@u.northwestern.edu'', year = ''Junior'',
                 experienced_fields = {|''ML''|}, knowledgeable_topics = {|''Interviews''|},
                 available_time = 3, copy_number = 0\<rparr>,
       weight_memo = Some (7 / 2),
       statistics_memo = Some [(''interests_overlap_fraction'', 1 / 2),
                               (''topics_overlap_fraction'', 0), (''year_difference'', 1)]\<rparr>"
  let ?e2 = "\<lparr>mentee = \<lparr>email = ''dan@u.northwestern.edu'', year = ''Freshman'',
                 interested_fields = {|''ML''|}, desired_topics = {|''Resume''|}\<rparr>,
       mentor = \<lparr>email = ''bob@u.northwestern.edu'', year = ''Senior'',
                 experienced_fields = {|''ML''|}, knowledgeable_topics = {|''Resume''|},
                 available_time = 1, copy_number = 0\<rparr>,
       weight_memo = Some 8,
       statistics_memo = Some [(''interests_overlap_fraction'', 1),
                               (''topics_overlap_fraction'', 1), (''year_difference'', 3)]\<rparr>"
  have s1: "scored ?e1" by (simp add: scored_def scorer_eval)
  have s2: "scored ?e2" by (simp add: scored_def scorer_eval)
  have two: "\<forall>edge \<in> set [?e1, ?e2]. scored edge" using s1 s2 by simp
  have one: "\<forall>edge \<in> set [?e2]. scored edge" using s2 by simp
  have none: "\<forall>edge \<in> set ([] :: MentorshipEdge list). scored edge" by simp
  have v1: "sample_standard_deviation [1 / 2, 1] = sqrt (1 / 8)"
    by (simp add: sample_standard_deviation_def sample_mean_def power2_eq_square)
  have v2: "sample_standard_deviation [0, 1] = sqrt (1 / 2)"
    by (simp add: sample_standard_deviation_def sample_mean_def power2_eq_square)
  have v3: "sample_standard_deviation [1, 3] = sqrt 2"
    by (simp add: sample_standard_deviation_def sample_mean_def power2_eq_square)
  show ?thesis
    using overall_statistics_need_two_edges [OF two]
          overall_statistics_need_two_edges [OF one]
          overall_statistics_need_two_edges [OF none]
    by (simp add: criterion_values_def sample_mean_def v1 v2 v3)
qed

section \<open>Properties of the 2021-spring variant\<close>

text \<open>Every path through \<open>compute_with_overlap\<close> ends in an exception.\<close>

lemma compute_with_overlap_raises:
  "compute_with_overlap self_weight num_overlap num_mentee stat_field multiplier statistics
   \<noteq> Inr result"
  by (simp add: compute_with_overlap_def Let_def split: sum.splits)

lemma compute_weight_and_statistics_2021_raises:
  "compute_weight_and_statistics_2021 depth self \<noteq> Inr result"
proof (cases depth)
  case 0
  then show ?thesis by simp
next
  case (Suc d)
  define self_weight where "self_weight =
            (case weight_memo_2021 self of
               Some w \<Rightarrow> Inr w
             | None \<Rightarrow>
                 (case compute_weight_and_statistics_2021 d self of
                    Inl e \<Rightarrow> Inl e
                  | Inr (w, s) \<Rightarrow> Inr w))"
  obtain e where "compute_with_overlap self_weight
       (fcard (interested_fields_2021 (mentee_2021 self)
                   |\<inter>| experienced_fields_2021 (mentor_2021 self)))
       (fcard (interested_fields_2021 (mentee_2021 self)))
       ''interests_overlap_fraction'' CAREER_INTERESTS_MULTIPLIER [] = Inl e"
    using compute_with_overlap_raises by (metis sum.exhaust)
  then show ?thesis
    unfolding Suc compute_weight_and_statistics_2021.simps Let_def self_weight_def
    by simp
qed


text \<open>
  C9 on the code of the second variant: the mutual-preference criterion never adds its
  bonus. When both sides prefer a match, \<open>gender_and_race\<close> raises AttributeError at
  the comparison of the attribute \<open>actual\<close>; and the scorer that calls it returns no
  weight for any edge and any recursion limit.
\<close>

theorem mutual_preference_bonus_never_added:
  "gender_and_race True True stat_field1 stat_field2 bonus statistics = Inl AttributeError
 \<and> compute_weight_and_statistics_2021 depth self \<noteq> Inr result"
  using compute_weight_and_statistics_2021_raises [of depth self result]
  by (simp add: gender_and_race_def)

lemma Mentee_from_survey_response_2021_tag_sets:
  assumes "Mentee_from_survey_response_2021 py_int row = Inr a"
  shows "interested_fields_2021 a =
           fset_of_list (split CHR '';'' (row ! MENTEE_INTERESTED_FIELDS_2021))
       \<and> desired_topics_2021 a =
           fset_of_list (split CHR '';'' (row ! MENTEE_DESIRED_TOPICS_2021))
       \<and> mentee_hobbies_2021 a = fset_of_list (split CHR '';'' (row ! MENTEE_HOBBIES_2021))"
  using assms
  by (auto simp: Mentee_from_survey_response_2021_def getitem_def
           split: sum.splits if_splits)

lemma Mentor_from_survey_response_2021_tag_sets:
  assumes "Mentor_from_survey_response_2021 py_int row = Inr b"
  shows "experienced_fields_2021 b =
           fset_of_list (split CHR '';'' (row ! MENTOR_EXPERIENCED_FIELDS_2021))
       \<and> knowledgeable_topics_2021 b =
           fset_of_list (split CHR '';'' (row ! MENTOR_COMFORTABLE_HELPING_2021))
       \<and> mentor_hobbies_2021 b = fset_of_list (split CHR '';'' (row ! MENTOR_HOBBIES_2021))
       \<and> copy_number_2021 b = 0"
  using assms
  by (auto simp: Mentor_from_survey_response_2021_def getitem_def
           split: sum.splits if_splits)

lemma tag_sets_nonempty_2021:
  "(Mentee_from_survey_response_2021 py_int row_a = Inr a \<longrightarrow>
      interested_fields_2021 a \<noteq> {||} \<and> desired_topics_2021 a \<noteq> {||}
    \<and> mentee_hobbies_2021 a \<noteq> {||})
 \<and> (Mentor_from_survey_response_2021 py_int row_b = Inr b \<longrightarrow>
      experienced_fields_2021 b \<noteq> {||} \<and> knowledgeable_topics_2021 b \<noteq> {||}
    \<and> mentor_hobbies_2021 b \<noteq> {||})"
  using Mentee_from_survey_response_2021_tag_sets [of py_int row_a a]
        Mentor_from_survey_response_2021_tag_sets [of py_int row_b b]
  by (simp add: frozenset_split_nonempty)

lemma empty_field_singleton_2021:
  assumes "Mentee_from_survey_response_2021 py_int row = Inr a"
      and "row ! MENTEE_INTERESTED_FIELDS_2021 = []"
  shows "interested_fields_2021 a = {|[]|}"
  using Mentee_from_survey_response_2021_tag_sets [OF assms(1)] assms(2) by simp

lemma mentor_without_capacity_one_slot_2021:
  assumes "num_mentees_2021 self \<le> 1"
  shows "copy_self_for_bipartite_graph_2021 self = [self]"
  using assms by (simp add: copy_self_for_bipartite_graph_2021_def)

lemma mentor_without_capacity_one_slot:
  assumes "num_mentees_possible self \<le> 1"
  shows "copy_self_for_bipartite_graph self = [self]"
  using assms by (simp add: copy_self_for_bipartite_graph_def)

text \<open>
  The first division of the second variant is the one of the first: it raises
  ZeroDivisionError for a mentee without interested fields, and never otherwise.
\<close>

lemma compute_weight_and_statistics_2021_no_zero_division:
  assumes "interested_fields_2021 (mentee_2021 self) \<noteq> {||}"
  shows "compute_weight_and_statistics_2021 depth self \<noteq> Inl ZeroDivisionError"
proof (induction depth)
  case 0
  show ?case by simp
next
  case (Suc depth)
  have "compute_with_overlap self_weight
       (fcard (interested_fields_2021 (mentee_2021 self)
                   |\<inter>| experienced_fields_2021 (mentor_2021 self)))
       (fcard (interested_fields_2021 (mentee_2021 self)))
       ''interests_overlap_fraction'' CAREER_INTERESTS_MULTIPLIER [] =
        (case self_weight of Inl e \<Rightarrow> Inl e | Inr w \<Rightarrow> Inl AttributeError)"
    for self_weight
    using assms by (simp add: compute_with_overlap_def fcard_0_eq)
  then show ?case
    unfolding compute_weight_and_statistics_2021.simps Let_def
    using Suc.IH
    by (auto split: option.splits sum.splits)
qed

lemma compute_weight_and_statistics_2021_empty_interests:
  assumes "interested_fields_2021 (mentee_2021 self) = {||}"
  shows "compute_weight_and_statistics_2021 (Suc depth) self = Inl ZeroDivisionError"
proof -
  have "compute_with_overlap self_weight num_overlap 0 stat_field multiplier statistics
        = Inl ZeroDivisionError" for self_weight num_overlap stat_field multiplier statistics
    by (simp add: compute_with_overlap_def)
  then show ?thesis
    unfolding compute_weight_and_statistics_2021.simps Let_def
    by (simp add: assms fcard_fempty)
qed



end
